theory Spec2Isabelle
  imports Main "HOL-Library.Product_Lexorder"
begin

section \<open>JavaScript values, strings and documents\<close>

text \<open>
  The program is a single ES module, \<^verbatim>\<open>src/react.js\<close>: four React components over the
  Firebase authentication and Firestore SDKs. Field values of Firestore documents are
  modelled by the datatype below. \<open>JTime\<close> is a stored timestamp, \<open>JServerTimestamp\<close> the
  sentinel returned by \<^verbatim>\<open>serverTimestamp()\<close>, which the server replaces when it commits a
  write. Numbers are approximated by integers: the program only tests them for truthiness.
\<close>

datatype jsval =
  JUndefined
| JNull
| JBool bool
| JNum int
| JStr string
| JArr "jsval list"
| JTime nat
| JServerTimestamp

datatype js_error =
  ReferenceError string
| TypeError string
| CollaboratorError string

text \<open>JavaScript's \<^verbatim>\<open>ToBoolean\<close>: what \<^verbatim>\<open>!x\<close>, \<^verbatim>\<open>x && y\<close>, \<^verbatim>\<open>x || y\<close> and \<^verbatim>\<open>x ? a : b\<close> test.\<close>

fun truthy :: "jsval \<Rightarrow> bool" where
  "truthy JUndefined = False"
| "truthy JNull = False"
| "truthy (JBool b) = b"
| "truthy (JNum n) = (n \<noteq> 0)"
| "truthy (JStr s) = (s \<noteq> [])"
| "truthy (JArr xs) = True"
| "truthy (JTime t) = True"
| "truthy JServerTimestamp = True"

text \<open>A nullable string (\<^verbatim>\<open>userId\<close>, \<^verbatim>\<open>chatId\<close>, \<^verbatim>\<open>user.email\<close>) is a \<open>string option\<close>.\<close>

definition nullable :: "string option \<Rightarrow> jsval" where
  "nullable s = (case s of None \<Rightarrow> JNull | Some x \<Rightarrow> JStr x)"

definition truthy_str :: "string option \<Rightarrow> bool" where
  "truthy_str s = truthy (nullable s)"

text \<open>
  \<^verbatim>\<open>String.prototype.trim\<close> removes white space and line terminators at both ends. A
  character here is a code unit below 256; among these the ones \<^verbatim>\<open>trim\<close> removes are tab,
  line feed, vertical tab, form feed, carriage return, space and the no-break space.
\<close>

definition is_space :: "char \<Rightarrow> bool" where
  "is_space c = (c \<in> set [CHR 0x09, CHR 0x0A, CHR 0x0B, CHR 0x0C, CHR 0x0D, CHR 0x20, CHR 0xA0])"

definition trim :: "string \<Rightarrow> string" where
  "trim s = rev (dropWhile is_space (rev (dropWhile is_space s)))"

text \<open>\<^verbatim>\<open>s.split('@')[0]\<close>: the part before the first \<^verbatim>\<open>@\<close>, the whole string when there is none.\<close>

definition split_at_first :: "string \<Rightarrow> string" where
  "split_at_first s = takeWhile (\<lambda>c. c \<noteq> CHR ''@'') s"

text \<open>\<^verbatim>\<open>s.substring(0, 6)\<close>.\<close>

definition substring06 :: "string \<Rightarrow> string" where
  "substring06 s = take 6 s"

text \<open>\<^verbatim>\<open>String.prototype.includes\<close>: the argument occurs as a contiguous part.\<close>

fun str_includes :: "string \<Rightarrow> string \<Rightarrow> bool" where
  "str_includes [] p = (p = [])"
| "str_includes (c # cs) p = (take (length p) (c # cs) = p \<or> str_includes cs p)"

text \<open>
  A document is a finite map from field names to values; reading a field that is absent
  yields \<^verbatim>\<open>undefined\<close>. A query snapshot is the list of its documents, each an id and its data.
\<close>

type_synonym document = "string \<rightharpoonup> jsval"

definition field :: "document \<Rightarrow> string \<Rightarrow> jsval" where
  "field d f = (case d f of None \<Rightarrow> JUndefined | Some v \<Rightarrow> v)"

text \<open>\<^verbatim>\<open>{ id: doc.id, ...doc.data() }\<close>: the spread comes second, so a data field named \<^verbatim>\<open>id\<close> wins.\<close>

definition with_id :: "string \<times> document \<Rightarrow> document" where
  "with_id d = [''id'' \<mapsto> JStr (fst d)] ++ snd d"

text \<open>
  \<^verbatim>\<open>v.includes(userId)\<close> with a string argument. On an array it is
  \<^verbatim>\<open>Array.prototype.includes\<close> (SameValueZero: an element equals the argument when it is the
  same string); on a string it is the substring test; every other value has no such method
  and the call throws a \<^verbatim>\<open>TypeError\<close>.
\<close>

fun js_includes :: "jsval \<Rightarrow> string \<Rightarrow> js_error + bool" where
  "js_includes (JArr xs) u = Inr (JStr u \<in> set xs)"
| "js_includes (JStr s) u = Inr (str_includes s u)"
| "js_includes v u = Inl (TypeError ''includes is not a function'')"

text \<open>\<^verbatim>\<open>Array.prototype.filter\<close> with a predicate that may throw: the first throw aborts the call.\<close>

fun filter_js :: "('a \<Rightarrow> js_error + bool) \<Rightarrow> 'a list \<Rightarrow> js_error + 'a list" where
  "filter_js p [] = Inr []"
| "filter_js p (x # xs) =
     (case p x of
        Inl e \<Rightarrow> Inl e
      | Inr b \<Rightarrow> (case filter_js p xs of
                    Inl e \<Rightarrow> Inl e
                  | Inr ys \<Rightarrow> Inr (if b then x # ys else ys)))"

section \<open>Room Directory: the snapshot listener of \<^verbatim>\<open>ChatListScreen\<close>\<close>

text \<open>
  The predicate of line 225, \<^verbatim>\<open>chat.participants && chat.participants.includes(userId)\<close>.
  The listener is only registered when \<^verbatim>\<open>userId\<close> is truthy (line 218), so inside it
  \<^verbatim>\<open>userId\<close> is a string.
\<close>

definition is_participant :: "string \<Rightarrow> document \<Rightarrow> js_error + bool" where
  "is_participant userId chat =
     (let ps = field chat ''participants''
      in if \<not> truthy ps then Inr False else js_includes ps userId)"

text \<open>
  Lines 222 to 226: the listener maps the snapshot's documents, filters them and stores the
  result with \<^verbatim>\<open>setChats\<close>. The result is \<open>Inl\<close> when the predicate throws; \<^verbatim>\<open>setChats\<close> is
  then not reached and the component keeps its previous list.
\<close>

definition chats_onSnapshot :: "string \<Rightarrow> (string \<times> document) list \<Rightarrow> js_error + document list" where
  "chats_onSnapshot userId docs = filter_js (is_participant userId) (map with_id docs)"

definition setChats :: "document list \<Rightarrow> js_error + document list \<Rightarrow> document list" where
  "setChats chats r = (case r of Inl e \<Rightarrow> chats | Inr chatData \<Rightarrow> chatData)"

text \<open>
  A room record as the data model has it: the \<^verbatim>\<open>participants\<close> field is an array. The
  directory's listener also meets records with no such field.
\<close>

definition participants_of :: "document \<Rightarrow> jsval list option" where
  "participants_of d = (case d ''participants'' of Some (JArr ps) \<Rightarrow> Some ps | _ \<Rightarrow> None)"

definition room_record :: "document \<Rightarrow> bool" where
  "room_record d = (case d ''participants'' of None \<Rightarrow> True | Some (JArr ps) \<Rightarrow> True | Some v \<Rightarrow> False)"

section \<open>The collaborators: host page, Firestore and the authentication service\<close>

text \<open>
  The host page may inject the globals \<^verbatim>\<open>__app_id\<close> and \<^verbatim>\<open>__initial_auth_token\<close>, which the
  module reads behind \<^verbatim>\<open>typeof\<close> guards; \<open>None\<close> is \<^verbatim>\<open>undefined\<close>. \<open>other_globals\<close> names
  any further global bindings of the page.
\<close>

record host =
  app_id :: "string option"
  initial_auth_token :: "string option"
  other_globals :: "string list"

text \<open>
  The bindings of the module's own scope: the names imported on lines 1 to 4 and the
  module's top-level declarations. An identifier that is neither one of these nor a global
  of the page does not resolve, and evaluating it throws a \<^verbatim>\<open>ReferenceError\<close>.
\<close>

definition module_bindings :: "string list" where
  "module_bindings =
     [''React'', ''useState'', ''useEffect'', ''createContext'', ''useContext'',
      ''initializeApp'',
      ''getAuth'', ''signInWithEmailAndPassword'', ''createUserWithEmailAndPassword'',
      ''signOut'', ''onAuthStateChanged'',
      ''getFirestore'', ''collection'', ''addDoc'', ''query'', ''orderBy'', ''onSnapshot'',
      ''serverTimestamp'', ''doc'', ''getDoc'', ''setDoc'', ''updateDoc'', ''arrayUnion'',
      ''firebaseConfig'', ''app'', ''auth'', ''db'', ''AuthContext'', ''AuthProvider'', ''App'',
      ''AuthScreen'', ''ChatListScreen'', ''ChatRoomScreen'', ''MainApp'']"

definition resolves :: "host \<Rightarrow> string \<Rightarrow> bool" where
  "resolves h name = (name \<in> set module_bindings \<or> name \<in> set (other_globals h))"

text \<open>\<^verbatim>\<open>typeof __app_id !== 'undefined' ? __app_id : 'default-app-id'\<close>.\<close>

definition appId :: "host \<Rightarrow> string" where
  "appId h = (case app_id h of None \<Rightarrow> ''default-app-id'' | Some a \<Rightarrow> a)"

text \<open>
  Modelled from the spec: the database collaborator, which is the Firestore SDK and its
  server and not code of this module. It is a store of documents under paths with the
  operations the spec lists: read a single document, create a document, update a document
  by a partial field set, and subscribe to a collection with optional ordering. A path is
  the list of the segments of the template literal the source builds, so
  \<^verbatim>\<open>artifacts/${appId}/public/data/chats\<close> has five segments. The documents of a collection
  are the entries one segment below it.
\<close>

type_synonym path = "string list"
type_synonym firestore = "(path \<times> document) list"

definition chats_path :: "host \<Rightarrow> path" where
  "chats_path h = [''artifacts'', appId h, ''public'', ''data'', ''chats'']"

definition chat_doc_path :: "host \<Rightarrow> string \<Rightarrow> path" where
  "chat_doc_path h chatId = chats_path h @ [chatId]"

definition messages_path :: "host \<Rightarrow> string \<Rightarrow> path" where
  "messages_path h chatId = chats_path h @ [chatId, ''messages'']"

definition profile_path :: "host \<Rightarrow> string \<Rightarrow> path" where
  "profile_path h u = [''artifacts'', appId h, ''users'', u, ''profile'']"

text \<open>
  The SDK's \<^verbatim>\<open>doc\<close> makes a document reference from a path. Collections and documents
  alternate along a path, so a document path has an even number of segments, and \<^verbatim>\<open>doc\<close>
  throws on every other path. Empty segments do not count: the closing slash of the
  template literal of line 46 adds none, and that path has five segments.
\<close>

definition doc_ref :: "path \<Rightarrow> js_error + path" where
  "doc_ref p = (if p \<noteq> [] \<and> even (length p) then Inr p else Inl (CollaboratorError ''doc''))"

definition lookup_doc :: "firestore \<Rightarrow> path \<Rightarrow> document option" where
  "lookup_doc fs p = map_of fs p"

fun put :: "path \<Rightarrow> document \<Rightarrow> firestore \<Rightarrow> firestore" where
  "put p d [] = [(p, d)]"
| "put p d ((q, e) # fs) = (if q = p then (p, d) # fs else (q, e) # put p d fs)"

definition collection_docs :: "firestore \<Rightarrow> path \<Rightarrow> (string \<times> document) list" where
  "collection_docs fs coll = map (\<lambda>e. (last (fst e), snd e)) (filter (\<lambda>e. fst e \<noteq> [] \<and> butlast (fst e) = coll) fs)"

text \<open>When the server commits a write it replaces each \<^verbatim>\<open>serverTimestamp()\<close> sentinel by its clock.\<close>

definition resolve :: "nat \<Rightarrow> document \<Rightarrow> document" where
  "resolve t d = (\<lambda>f. case d f of Some JServerTimestamp \<Rightarrow> Some (JTime t) | v \<Rightarrow> v)"

text \<open>
  How the collaborators answer the calls of one handler run: whether each call resolves or
  rejects, the id the server gives a document created by \<^verbatim>\<open>addDoc\<close>, and the server's
  clock at each write.
\<close>

record responses =
  signInWithCustomToken_ok :: bool
  signInAnonymously_ok :: bool
  getDoc_ok :: bool
  setDoc_ok :: bool
  setDoc_time :: nat
  addDoc_ok :: bool
  addDoc_id :: string
  addDoc_time :: nat
  updateDoc_ok :: bool
  updateDoc_time :: nat

text \<open>
  The world outside the components: the Firestore contents, the calls the collaborators
  have received (oldest first) and the console.
\<close>

datatype request =
  SignInWithCustomToken string
| SignInAnonymously
| GetDoc path
| SetDoc path document
| AddDoc path document
| UpdateDoc path document

datatype log_entry =
  ConsoleLog string
| ConsoleError string js_error

record world =
  store :: firestore
  requests :: "request list"
  console :: "log_entry list"

definition received :: "request \<Rightarrow> world \<Rightarrow> world" where
  "received q w = w\<lparr>requests := requests w @ [q]\<rparr>"

definition logged :: "log_entry \<Rightarrow> world \<Rightarrow> world" where
  "logged l w = w\<lparr>console := console w @ [l]\<rparr>"

text \<open>
  A call of a function of the authentication SDK by name. The name is looked up first; a
  call that resolves or rejects has reached the collaborator. What the authentication
  service does with a request, a later identity-change event, is not part of the call.
\<close>

definition call_auth :: "host \<Rightarrow> string \<Rightarrow> request \<Rightarrow> bool \<Rightarrow> world \<Rightarrow> js_error option \<times> world" where
  "call_auth h name q ok w =
     (if \<not> resolves h name then (Some (ReferenceError name), w)
      else if ok then (None, received q w)
      else (Some (CollaboratorError name), received q w))"

text \<open>
  The Firestore calls. \<^verbatim>\<open>setDoc\<close> creates or replaces a document, \<^verbatim>\<open>addDoc\<close> creates one
  under a server-chosen id, \<^verbatim>\<open>updateDoc\<close> overwrites the given fields of an existing
  document and rejects when there is none.
\<close>

definition call_getDoc :: "responses \<Rightarrow> path \<Rightarrow> world \<Rightarrow> (js_error + document option) \<times> world" where
  "call_getDoc r p w =
     (if getDoc_ok r then (Inr (lookup_doc (store w) p), received (GetDoc p) w)
      else (Inl (CollaboratorError ''getDoc''), received (GetDoc p) w))"

definition call_setDoc :: "responses \<Rightarrow> path \<Rightarrow> document \<Rightarrow> world \<Rightarrow> js_error option \<times> world" where
  "call_setDoc r p d w =
     (if setDoc_ok r
      then (None, received (SetDoc p d) (w\<lparr>store := put p (resolve (setDoc_time r) d) (store w)\<rparr>))
      else (Some (CollaboratorError ''setDoc''), received (SetDoc p d) w))"

definition call_addDoc :: "responses \<Rightarrow> path \<Rightarrow> document \<Rightarrow> world \<Rightarrow> js_error option \<times> world" where
  "call_addDoc r coll d w =
     (if addDoc_ok r
      then (None, received (AddDoc coll d)
                    (w\<lparr>store := put (coll @ [addDoc_id r]) (resolve (addDoc_time r) d) (store w)\<rparr>))
      else (Some (CollaboratorError ''addDoc''), received (AddDoc coll d) w))"

definition call_updateDoc :: "responses \<Rightarrow> path \<Rightarrow> document \<Rightarrow> world \<Rightarrow> js_error option \<times> world" where
  "call_updateDoc r p d w =
     (case lookup_doc (store w) p of
        None \<Rightarrow> (Some (CollaboratorError ''updateDoc''), received (UpdateDoc p d) w)
      | Some old \<Rightarrow>
          if updateDoc_ok r
          then (None, received (UpdateDoc p d)
                        (w\<lparr>store := put p (old ++ resolve (updateDoc_time r) d) (store w)\<rparr>))
          else (Some (CollaboratorError ''updateDoc''), received (UpdateDoc p d) w))"

section \<open>Session Manager: the identity listener of \<^verbatim>\<open>AuthProvider\<close>\<close>

record user =
  uid :: string
  email :: "string option"

record auth_provider =
  currentUser :: "user option"
  userId :: "string option"
  loading :: bool

definition initial_auth_provider :: auth_provider where
  "initial_auth_provider = \<lparr>currentUser = None, userId = None, loading = True\<rparr>"

text \<open>\<^verbatim>\<open>typeof __initial_auth_token !== 'undefined' && __initial_auth_token\<close> (lines 35 and 60).\<close>

definition token_available :: "host \<Rightarrow> bool" where
  "token_available h = truthy_str (initial_auth_token h)"

text \<open>
  Lines 35 to 44. A \<^verbatim>\<open>ReferenceError\<close> raised in the \<^verbatim>\<open>try\<close> block is caught like a rejection;
  an error raised in the \<^verbatim>\<open>catch\<close> block leaves the listener.
\<close>

definition custom_token_step :: "host \<Rightarrow> responses \<Rightarrow> world \<Rightarrow> js_error option \<times> world" where
  "custom_token_step h r w =
     (if \<not> token_available h then (None, w)
      else
        (case call_auth h ''signInWithCustomToken''
                (SignInWithCustomToken (the (initial_auth_token h))) (signInWithCustomToken_ok r) w of
           (None, w1) \<Rightarrow> (None, logged (ConsoleLog ''Signed in with custom token.'') w1)
         | (Some err, w1) \<Rightarrow>
             (case call_auth h ''signInAnonymously'' SignInAnonymously (signInAnonymously_ok r)
                     (logged (ConsoleError ''Error signing in with custom token:'' err) w1) of
                (None, w2) \<Rightarrow> (None, logged (ConsoleLog ''Signed in anonymously as fallback.'') w2)
              | (Some err2, w2) \<Rightarrow> (Some err2, w2))))"

text \<open>Line 52, the derived display label.\<close>

definition displayName_of :: "user \<Rightarrow> string" where
  "displayName_of u =
     (if truthy_str (email u) then split_at_first (the (email u))
      else ''User-'' @ substring06 (uid u))"

text \<open>Lines 49 to 54, the profile document.\<close>

definition profile_doc :: "user \<Rightarrow> document" where
  "profile_doc u =
     [''uid'' \<mapsto> JStr (uid u),
      ''email'' \<mapsto> nullable (email u),
      ''displayName'' \<mapsto> JStr (displayName_of u),
      ''createdAt'' \<mapsto> JServerTimestamp]"

text \<open>Lines 47 to 55: read the document at the reference and write it when the read finds none.\<close>

definition read_then_write :: "responses \<Rightarrow> path \<Rightarrow> user \<Rightarrow> world \<Rightarrow> js_error option \<times> world" where
  "read_then_write r userRef u w =
     (case call_getDoc r userRef w of
        (Inl err, w1) \<Rightarrow> (Some err, w1)
      | (Inr (Some d), w1) \<Rightarrow> (None, w1)
      | (Inr None, w1) \<Rightarrow> call_setDoc r userRef (profile_doc u) w1)"

text \<open>
  Lines 45 to 55: line 46 makes the reference with \<^verbatim>\<open>doc\<close>, outside any \<^verbatim>\<open>try\<close> block, so
  an error of \<^verbatim>\<open>doc\<close> leaves the listener before the read.
\<close>

definition ensure_profile :: "host \<Rightarrow> responses \<Rightarrow> user \<Rightarrow> world \<Rightarrow> js_error option \<times> world" where
  "ensure_profile h r u w =
     (case doc_ref (profile_path h (uid u)) of
        Inl err \<Rightarrow> (Some err, w)
      | Inr userRef \<Rightarrow> read_then_write r userRef u w)"

text \<open>Lines 59 to 67.\<close>

definition anonymous_step :: "host \<Rightarrow> responses \<Rightarrow> world \<Rightarrow> world" where
  "anonymous_step h r w =
     (if token_available h then w
      else
        (case call_auth h ''signInAnonymously'' SignInAnonymously (signInAnonymously_ok r) w of
           (None, w1) \<Rightarrow> logged (ConsoleLog ''Signed in anonymously.'') w1
         | (Some err, w1) \<Rightarrow> logged (ConsoleError ''Error signing in anonymously:'' err) w1))"

text \<open>
  The listener of lines 30 to 70. The first component of the result is \<open>None\<close> when the
  listener runs to its end and \<open>Some\<close> the error when it leaves by an exception; the state
  changes made before the exception stay.
\<close>

definition onAuthStateChanged_callback ::
  "host \<Rightarrow> responses \<Rightarrow> user option \<Rightarrow> auth_provider \<times> world \<Rightarrow> js_error option \<times> auth_provider \<times> world" where
  "onAuthStateChanged_callback h r usr s =
     (case usr of
        Some u \<Rightarrow>
          (let p1 = (fst s)\<lparr>currentUser := Some u, userId := Some (uid u)\<rparr>
           in case custom_token_step h r (snd s) of
                (Some err, w1) \<Rightarrow> (Some err, p1, w1)
              | (None, w1) \<Rightarrow>
                  (case ensure_profile h r u w1 of
                     (Some err, w2) \<Rightarrow> (Some err, p1, w2)
                   | (None, w2) \<Rightarrow> (None, p1\<lparr>loading := False\<rparr>, w2)))
      | None \<Rightarrow>
          (let p1 = (fst s)\<lparr>currentUser := None, userId := None\<rparr>
           in (None, p1\<lparr>loading := False\<rparr>, anonymous_step h r (snd s))))"

text \<open>The write calls among the requests a world has received.\<close>

fun is_write :: "request \<Rightarrow> bool" where
  "is_write (SetDoc p d) = True"
| "is_write (AddDoc p d) = True"
| "is_write (UpdateDoc p d) = True"
| "is_write q = False"

definition writes :: "world \<Rightarrow> request list" where
  "writes w = filter is_write (requests w)"

section \<open>View Router: the component \<^verbatim>\<open>App\<close>\<close>

datatype view = Login | ChatList | ChatRoom

record app =
  view :: view
  selectedChatId :: "string option"
  selectedChatName :: string

text \<open>Lines 95 to 97, the initial values of the three state hooks.\<close>

definition initial_app :: app where
  "initial_app = \<lparr>view = ChatList, selectedChatId = None, selectedChatName = []\<rparr>"

text \<open>Lines 99 to 105, the effect that depends on \<^verbatim>\<open>currentUser\<close>.\<close>

definition currentUser_effect :: "user option \<Rightarrow> app \<Rightarrow> app" where
  "currentUser_effect cu a = (if cu = None then a\<lparr>view := Login\<rparr> else a\<lparr>view := ChatList\<rparr>)"

definition handleSelectChat :: "string \<Rightarrow> string \<Rightarrow> app \<Rightarrow> app" where
  "handleSelectChat chatId chatName a =
     a\<lparr>selectedChatId := Some chatId, selectedChatName := chatName, view := ChatRoom\<rparr>"

definition handleBackToChatList :: "app \<Rightarrow> app" where
  "handleBackToChatList a = a\<lparr>view := ChatList, selectedChatId := None, selectedChatName := []\<rparr>"

text \<open>Lines 122 to 132: the screen that a render mounts.\<close>

datatype screen = NoScreen | AuthScreen | ChatListScreen | ChatRoomScreen string string

definition rendered :: "user option \<Rightarrow> app \<Rightarrow> screen" where
  "rendered cu a =
     (if view a = Login then AuthScreen
      else if view a = ChatList \<and> cu \<noteq> None then ChatListScreen
      else if view a = ChatRoom \<and> cu \<noteq> None \<and> truthy_str (selectedChatId a)
           then ChatRoomScreen (the (selectedChatId a)) (selectedChatName a)
      else NoScreen)"

text \<open>
  React runs an effect again when one of its dependencies is a different value by
  \<^verbatim>\<open>Object.is\<close>. \<^verbatim>\<open>null\<close> is the same as \<^verbatim>\<open>null\<close>; for two user objects \<open>fresh\<close> says whether
  the new one is another object.
\<close>

definition deps_changed :: "user option \<Rightarrow> user option \<Rightarrow> bool \<Rightarrow> bool" where
  "deps_changed old new fresh =
     (case old of
        None \<Rightarrow> new \<noteq> None
      | Some a \<Rightarrow> (case new of None \<Rightarrow> True | Some b \<Rightarrow> fresh))"

text \<open>
  \<^verbatim>\<open>App\<close> is mounted once \<^verbatim>\<open>loading\<close> is false (line 76). The states it commits when it is
  mounted under identity \<open>cu\<close>: the initial state, then the state after the effect.
\<close>

definition mount :: "user option \<Rightarrow> (user option \<times> app) list" where
  "mount cu = [(cu, initial_app), (cu, currentUser_effect cu initial_app)]"

text \<open>
  The states \<^verbatim>\<open>App\<close> commits when the context's \<^verbatim>\<open>currentUser\<close> becomes \<open>new\<close>: a render with
  the new identity and the old state, then, when the dependency changed, the state after
  the effect.
\<close>

definition identity_event :: "user option \<Rightarrow> bool \<Rightarrow> user option \<times> app \<Rightarrow> (user option \<times> app) list" where
  "identity_event new fresh s =
     (if deps_changed (fst s) new fresh
      then [(new, snd s), (new, currentUser_effect new (snd s))]
      else [(new, snd s)])"

text \<open>
  The states of \<^verbatim>\<open>App\<close> between events. A room can be selected only from the mounted room
  list (line 283), the back action only from the mounted transcript (line 399); the
  login screen receives \<^verbatim>\<open>setView\<close> and never calls it.
\<close>

inductive reachable :: "user option \<times> app \<Rightarrow> bool" where
  reachable_mount: "reachable (last (mount cu))"
| reachable_identity: "reachable s \<Longrightarrow> reachable (last (identity_event new fresh s))"
| reachable_select:
    "reachable (cu, a) \<Longrightarrow> rendered cu a = ChatListScreen \<Longrightarrow> reachable (cu, handleSelectChat c n a)"
| reachable_back:
    "reachable (cu, a) \<Longrightarrow> rendered cu a = ChatRoomScreen c n \<Longrightarrow> reachable (cu, handleBackToChatList a)"

section \<open>Room Directory: creating a room\<close>

text \<open>What a screen reads from \<^verbatim>\<open>AuthContext\<close>; \<open>ctx_db\<close> says whether the handle \<^verbatim>\<open>db\<close> is set.\<close>

record auth_context =
  ctx_currentUser :: "user option"
  ctx_userId :: "string option"
  ctx_db :: bool

record chat_list_screen =
  chats :: "document list"
  newChatName :: string
  showCreateChat :: bool

datatype query = Query path "string option"

text \<open>Line 221, the query of the room list: the whole collection, no ordering.\<close>

definition chats_query :: "host \<Rightarrow> query" where
  "chats_query h = Query (chats_path h) None"

text \<open>Lines 217 to 221: the effect subscribes unless the handle or the identity is missing.\<close>

definition chat_list_effect :: "host \<Rightarrow> auth_context \<Rightarrow> query option" where
  "chat_list_effect h ctx =
     (if \<not> ctx_db ctx \<or> \<not> truthy_str (ctx_userId ctx) then None else Some (chats_query h))"

text \<open>Lines 238 to 242, the room document.\<close>

definition chat_doc :: "string option \<Rightarrow> string \<Rightarrow> document" where
  "chat_doc u name =
     [''name'' \<mapsto> JStr (trim name),
      ''participants'' \<mapsto> JArr [nullable u],
      ''createdAt'' \<mapsto> JServerTimestamp]"

text \<open>
  Lines 234 to 248. The handler does not test \<^verbatim>\<open>db\<close>; \<^verbatim>\<open>collection\<close> throws on a missing
  handle, inside the \<^verbatim>\<open>try\<close> block.
\<close>

definition handleCreateChat ::
  "host \<Rightarrow> responses \<Rightarrow> auth_context \<Rightarrow> chat_list_screen \<times> world \<Rightarrow> chat_list_screen \<times> world" where
  "handleCreateChat h r ctx s =
     (if trim (newChatName (fst s)) = [] then s
      else if \<not> ctx_db ctx
      then (fst s, logged (ConsoleError ''Error creating chat:'' (CollaboratorError ''collection'')) (snd s))
      else
        (case call_addDoc r (chats_path h) (chat_doc (ctx_userId ctx) (newChatName (fst s))) (snd s) of
           (Some err, w1) \<Rightarrow> (fst s, logged (ConsoleError ''Error creating chat:'' err) w1)
         | (None, w1) \<Rightarrow> ((fst s)\<lparr>newChatName := [], showCreateChat := False\<rparr>, w1)))"

section \<open>Room Transcript: the component \<^verbatim>\<open>ChatRoomScreen\<close>\<close>

record chat_room_screen =
  messages :: "document list"
  newMessage :: string

text \<open>Lines 352 and 353, the query of the transcript: the room's messages by \<^verbatim>\<open>createdAt\<close>.\<close>

definition messages_query :: "host \<Rightarrow> string \<Rightarrow> query" where
  "messages_query h chatId = Query (messages_path h chatId) (Some ''createdAt'')"

text \<open>Lines 348 to 353: the effect subscribes unless the handle or the room id is missing.\<close>

definition chat_room_effect :: "host \<Rightarrow> auth_context \<Rightarrow> string option \<Rightarrow> query option" where
  "chat_room_effect h ctx chatId =
     (if \<not> ctx_db ctx \<or> \<not> truthy_str chatId then None else Some (messages_query h (the chatId)))"

text \<open>
  Lines 355 to 357, the listener: the documents in the order of the snapshot. The screen
  renders \<^verbatim>\<open>messages\<close> in list order (line 414).
\<close>

definition messages_onSnapshot :: "(string \<times> document) list \<Rightarrow> document list" where
  "messages_onSnapshot docs = map with_id docs"

text \<open>
  The message subscription lives while the transcript is mounted: the effect's cleanup
  (line 362) runs when the component is unmounted. A snapshot of a room is handed to the
  listener only while the subscription to that room is live.
\<close>

definition message_subscription :: "user option \<Rightarrow> app \<Rightarrow> string option" where
  "message_subscription cu a =
     (case rendered cu a of ChatRoomScreen c n \<Rightarrow> Some c | _ \<Rightarrow> None)"

definition deliver_messages ::
  "string option \<Rightarrow> string \<Rightarrow> (string \<times> document) list \<Rightarrow> document list \<Rightarrow> document list" where
  "deliver_messages sub room docs msgs = (if sub = Some room then messages_onSnapshot docs else msgs)"

text \<open>Line 379, \<^verbatim>\<open>currentUser?.email || `User-${userId.substring(0, 6)}`\<close>.\<close>

definition sender_label :: "user option \<Rightarrow> string \<Rightarrow> string" where
  "sender_label cu u =
     (case cu of
        None \<Rightarrow> ''User-'' @ substring06 u
      | Some usr \<Rightarrow> if truthy_str (email usr) then the (email usr) else ''User-'' @ substring06 u)"

text \<open>Lines 376 to 381, the message document, and lines 385 to 388, the summary fields.\<close>

definition message_doc :: "user option \<Rightarrow> string \<Rightarrow> string \<Rightarrow> document" where
  "message_doc cu u text =
     [''text'' \<mapsto> JStr (trim text),
      ''senderId'' \<mapsto> JStr u,
      ''senderEmail'' \<mapsto> JStr (sender_label cu u),
      ''createdAt'' \<mapsto> JServerTimestamp]"

definition summary_fields :: "string \<Rightarrow> document" where
  "summary_fields text =
     [''lastMessage'' \<mapsto> JStr (trim text),
      ''lastMessageTime'' \<mapsto> JServerTimestamp]"

text \<open>Lines 370 to 394.\<close>

definition send_rejected :: "auth_context \<Rightarrow> string option \<Rightarrow> string \<Rightarrow> bool" where
  "send_rejected ctx chatId text =
     (trim text = [] \<or> \<not> ctx_db ctx \<or> \<not> truthy_str chatId \<or> \<not> truthy_str (ctx_userId ctx))"

definition handleSendMessage ::
  "host \<Rightarrow> responses \<Rightarrow> auth_context \<Rightarrow> string option \<Rightarrow> chat_room_screen \<times> world \<Rightarrow> chat_room_screen \<times> world" where
  "handleSendMessage h r ctx chatId s =
     (if send_rejected ctx chatId (newMessage (fst s)) then s
      else
        (case call_addDoc r (messages_path h (the chatId))
                (message_doc (ctx_currentUser ctx) (the (ctx_userId ctx)) (newMessage (fst s))) (snd s) of
           (Some err, w1) \<Rightarrow> (fst s, logged (ConsoleError ''Error sending message:'' err) w1)
         | (None, w1) \<Rightarrow>
             (case call_updateDoc r (chat_doc_path h (the chatId)) (summary_fields (newMessage (fst s))) w1 of
                (Some err, w2) \<Rightarrow> (fst s, logged (ConsoleError ''Error sending message:'' err) w2)
              | (None, w2) \<Rightarrow> ((fst s)\<lparr>newMessage := []\<rparr>, w2))))"

section \<open>The server's answer to a query\<close>

text \<open>
  Modelled from the spec: the database collaborator's answer to a subscription, the
  server-side sort that the module relies on and does not implement.
  Firestore answers a query with the documents of the collection; with \<^verbatim>\<open>orderBy(f)\<close> it
  leaves out the documents that have no field \<open>f\<close> and sorts the rest ascending by that
  field. Values of different types are ordered null, boolean, number, timestamp, string,
  array; the key below orders timestamps by time, and leaves strings and arrays among
  themselves in collection order.
\<close>

fun order_key :: "jsval \<Rightarrow> nat \<times> int" where
  "order_key JUndefined = (0, 0)"
| "order_key JNull = (0, 0)"
| "order_key (JBool b) = (1, if b then 1 else 0)"
| "order_key (JNum n) = (2, n)"
| "order_key (JTime t) = (3, int t)"
| "order_key JServerTimestamp = (3, 0)"
| "order_key (JStr s) = (4, 0)"
| "order_key (JArr xs) = (5, 0)"

fun snapshot_of :: "firestore \<Rightarrow> query \<Rightarrow> (string \<times> document) list" where
  "snapshot_of fs (Query coll None) = collection_docs fs coll"
| "snapshot_of fs (Query coll (Some f)) =
     sort_key (\<lambda>d. order_key (field (snd d) f)) (filter (\<lambda>d. snd d f \<noteq> None) (collection_docs fs coll))"

text \<open>The transcript a screen shows for a room, given the store.\<close>

definition transcript :: "host \<Rightarrow> string \<Rightarrow> firestore \<Rightarrow> document list" where
  "transcript h chatId fs = messages_onSnapshot (snapshot_of fs (messages_query h chatId))"

text \<open>The room directory an identity sees, given the store.\<close>

definition directory :: "host \<Rightarrow> string \<Rightarrow> firestore \<Rightarrow> js_error + document list" where
  "directory h u fs = chats_onSnapshot u (snapshot_of fs (chats_query h))"

definition participant_set :: "document \<Rightarrow> jsval set" where
  "participant_set d = (case participants_of d of None \<Rightarrow> {} | Some ps \<Rightarrow> set ps)"

definition created_key :: "document \<Rightarrow> nat \<times> int" where
  "created_key d = order_key (field d ''createdAt'')"

section \<open>Concrete inputs\<close>

text \<open>A page with no injected globals, and one with an application id and a sign-in token.\<close>

definition example_host :: host where
  "example_host = \<lparr>app_id = None, initial_auth_token = None, other_globals = []\<rparr>"

definition token_host :: host where
  "token_host = \<lparr>app_id = Some ''app1'', initial_auth_token = Some ''tok'', other_globals = []\<rparr>"

definition all_ok :: responses where
  "all_ok = \<lparr>signInWithCustomToken_ok = True, signInAnonymously_ok = True, getDoc_ok = True,
     setDoc_ok = True, setDoc_time = 100, addDoc_ok = True, addDoc_id = ''d1'', addDoc_time = 100,
     updateDoc_ok = True, updateDoc_time = 101\<rparr>"

definition empty_world :: world where
  "empty_world = \<lparr>store = [], requests = [], console = []\<rparr>"

definition alice :: user where
  "alice = \<lparr>uid = ''u1abcdefgh'', email = Some ''alice@example.org''\<rparr>"

definition general_room :: "string \<times> document" where
  "general_room = (''r1'', [''name'' \<mapsto> JStr ''General'', ''participants'' \<mapsto> JArr [JStr ''u2'', JStr ''u1'']])"

definition other_room :: "string \<times> document" where
  "other_room = (''r2'', [''name'' \<mapsto> JStr ''Other'', ''participants'' \<mapsto> JArr [JStr ''u2'']])"

definition bare_room :: "string \<times> document" where
  "bare_room = (''r3'', [''name'' \<mapsto> JStr ''Bare''])"

definition alice_context :: auth_context where
  "alice_context = \<lparr>ctx_currentUser = Some alice, ctx_userId = Some ''u1abcdefgh'', ctx_db = True\<rparr>"

definition general_world :: world where
  "general_world =
     \<lparr>store = [([''artifacts'', ''default-app-id'', ''public'', ''data'', ''chats'', ''r1''],
                [''name'' \<mapsto> JStr ''General'', ''participants'' \<mapsto> JArr [JStr ''u1abcdefgh''],
                 ''createdAt'' \<mapsto> JTime 7])],
      requests = [], console = []\<rparr>"

definition hello_screen :: chat_room_screen where
  "hello_screen = \<lparr>messages = [], newMessage = '' hello ''\<rparr>"

definition update_fails :: responses where
  "update_fails = all_ok\<lparr>updateDoc_ok := False\<rparr>"

definition new_room_screen :: chat_list_screen where
  "new_room_screen = \<lparr>chats = [], newChatName = '' General '', showCreateChat = True\<rparr>"

definition second_send :: responses where
  "second_send = all_ok\<lparr>addDoc_id := ''d2'', addDoc_time := 200, updateDoc_time := 201\<rparr>"

definition world_screen :: chat_room_screen where
  "world_screen = \<lparr>messages = [], newMessage = ''world''\<rparr>"

definition insert_rejected :: responses where
  "insert_rejected = all_ok\<lparr>addDoc_ok := False\<rparr>"

text \<open>
  The scenario of the spec: identity \<open>u1\<close> creates the room ``General'' and sends ``hello''.
\<close>

definition u1_context :: auth_context where
  "u1_context = \<lparr>ctx_currentUser = Some \<lparr>uid = ''u1'', email = None\<rparr>, ctx_userId = Some ''u1'', ctx_db = True\<rparr>"

definition room_created :: world where
  "room_created =
     snd (handleCreateChat example_host all_ok u1_context
            (\<lparr>chats = [], newChatName = ''General'', showCreateChat = True\<rparr>, empty_world))"

definition hello_sent :: world where
  "hello_sent =
     snd (handleSendMessage example_host second_send u1_context (Some ''d1'')
            (\<lparr>messages = [], newMessage = ''hello''\<rparr>, room_created))"

section \<open>Room Directory: visibility\<close>

lemma with_id_participants: "with_id r ''participants'' = snd r ''participants''"
  by (simp add: with_id_def map_add_def split: option.splits)

lemma room_record_with_id: "room_record (with_id r) = room_record (snd r)"
  by (simp add: room_record_def with_id_participants)

lemma participant_set_with_id: "participant_set (with_id r) = participant_set (snd r)"
  by (simp add: participant_set_def participants_of_def with_id_participants)

lemma is_participant_room_record:
  "room_record c \<Longrightarrow> is_participant u c = Inr (JStr u \<in> participant_set c)"
  by (auto simp: room_record_def is_participant_def field_def participant_set_def participants_of_def Let_def
           split: option.splits jsval.splits)

lemma filter_js_total:
  "\<forall>x \<in> set xs. p x = Inr (q x) \<Longrightarrow> filter_js p xs = Inr (filter q xs)"
  by (induction xs) auto

lemma chats_onSnapshot_room_records:
  assumes "\<forall>r \<in> set docs. room_record (snd r)"
  shows "chats_onSnapshot u docs =
         Inr (filter (\<lambda>c. JStr u \<in> participant_set c) (map with_id docs))"
  unfolding chats_onSnapshot_def
  by (rule filter_js_total) (use assms in \<open>auto simp: is_participant_room_record room_record_with_id\<close>)

lemma is_participant_not_an_array:
  "is_participant u [''participants'' \<mapsto> JNum 5] = Inl (TypeError ''includes is not a function'')"
  by (simp add: is_participant_def field_def)

text \<open>
  C2. For every snapshot of the room collection and every identity id, the listener of
  the Room Directory succeeds and stores a list in which a room of the snapshot occurs if
  and only if the identity id is a member of the room's participant array. The test is
  membership in the set of the array's elements, so two arrays with the same elements
  in any order give the same answer.
\<close>

theorem room_visible_iff_participant:
  assumes "\<forall>r \<in> set docs. room_record (snd r)"
  shows "\<exists>chatData. chats_onSnapshot u docs = Inr chatData \<and>
           setChats old (chats_onSnapshot u docs) = chatData \<and>
           (\<forall>r \<in> set docs. with_id r \<in> set chatData \<longleftrightarrow> JStr u \<in> participant_set (snd r)) \<and>
           (\<forall>d ps ps'. set ps = set ps' \<longrightarrow>
              is_participant u (d(''participants'' \<mapsto> JArr ps)) =
              is_participant u (d(''participants'' \<mapsto> JArr ps')))"
proof -
  let ?chatData = "filter (\<lambda>c. JStr u \<in> participant_set c) (map with_id docs)"
  have run: "chats_onSnapshot u docs = Inr ?chatData"
    by (rule chats_onSnapshot_room_records[OF assms])
  have stored: "setChats old (chats_onSnapshot u docs) = ?chatData"
    by (simp add: run setChats_def)
  have member: "\<forall>r \<in> set docs. with_id r \<in> set ?chatData \<longleftrightarrow> JStr u \<in> participant_set (snd r)"
    by (auto simp: participant_set_with_id)
  have order: "\<forall>d ps ps'. set ps = set ps' \<longrightarrow>
          is_participant u (d(''participants'' \<mapsto> JArr ps)) =
          is_participant u (d(''participants'' \<mapsto> JArr ps'))"
    by (simp add: is_participant_def field_def)
  from run stored member order show ?thesis
    by blast
qed

theorem room_visible_iff_participant_witness:
  "\<exists>chatData. chats_onSnapshot ''u1'' [general_room, other_room] = Inr chatData \<and>
     with_id general_room \<in> set chatData \<and> with_id other_room \<notin> set chatData"
proof -
  have records: "\<forall>r \<in> set [general_room, other_room]. room_record (snd r)"
    by (simp add: general_room_def other_room_def room_record_def)
  have inside: "JStr ''u1'' \<in> participant_set (snd general_room)"
    by (simp add: general_room_def participant_set_def participants_of_def)
  have outside: "JStr ''u1'' \<notin> participant_set (snd other_room)"
    by (simp add: other_room_def participant_set_def participants_of_def)
  from room_visible_iff_participant[OF records, of "''u1''" "[]"] inside outside
  show ?thesis by auto
qed

text \<open>
  C10. On a snapshot of room records (each with a participant array or with no
  \<^verbatim>\<open>participants\<close> field at all) the visibility filter returns a list and does not throw; a
  record with no \<^verbatim>\<open>participants\<close> field makes the predicate return false and is not in the
  list.
\<close>

theorem room_without_participants_excluded:
  assumes "\<forall>r \<in> set docs. room_record (snd r)"
  shows "(\<exists>chatData. chats_onSnapshot u docs = Inr chatData \<and>
            (\<forall>r \<in> set docs. snd r ''participants'' = None \<longrightarrow> with_id r \<notin> set chatData)) \<and>
         (\<forall>c. c ''participants'' = None \<longrightarrow> is_participant u c = Inr False)"
proof (intro conjI allI impI)
  fix c :: document
  assume "c ''participants'' = None"
  then show "is_participant u c = Inr False"
    by (simp add: is_participant_def field_def)
next
  let ?chatData = "filter (\<lambda>c. JStr u \<in> participant_set c) (map with_id docs)"
  have "\<forall>r \<in> set docs. snd r ''participants'' = None \<longrightarrow> with_id r \<notin> set ?chatData"
  proof (intro ballI impI)
    fix r :: "string \<times> document"
    assume "snd r ''participants'' = None"
    then have "participant_set (snd r) = {}"
      by (simp add: participant_set_def participants_of_def)
    then have "participant_set (with_id r) = {}"
      by (simp only: participant_set_with_id)
    then show "with_id r \<notin> set ?chatData"
      by simp
  qed
  then show "\<exists>chatData. chats_onSnapshot u docs = Inr chatData \<and>
            (\<forall>r \<in> set docs. snd r ''participants'' = None \<longrightarrow> with_id r \<notin> set chatData)"
    using chats_onSnapshot_room_records[OF assms, of u] by blast
qed

theorem room_without_participants_excluded_witness:
  "(\<exists>chatData. chats_onSnapshot ''u1'' [general_room, bare_room] = Inr chatData \<and>
      with_id bare_room \<notin> set chatData) \<and>
   is_participant ''u1'' (snd bare_room) = Inr False"
proof -
  have records: "\<forall>r \<in> set [general_room, bare_room]. room_record (snd r)"
    by (simp add: general_room_def bare_room_def room_record_def)
  have bare: "snd bare_room ''participants'' = None"
    by (simp add: bare_room_def)
  from room_without_participants_excluded[OF records, of "''u1''"] bare
  show ?thesis by auto
qed

section \<open>Session Manager\<close>

lemma lookup_put_same: "lookup_doc (put p d fs) p = Some d"
  by (induction fs) (auto simp: lookup_doc_def)

lemma lookup_put_other: "q \<noteq> p \<Longrightarrow> lookup_doc (put p d fs) q = lookup_doc fs q"
  by (induction fs) (auto simp: lookup_doc_def)

lemma custom_token_step_store:
  "custom_token_step h r w = (e, w1) \<Longrightarrow> store w1 = store w \<and> writes w1 = writes w"
  by (auto simp: custom_token_step_def call_auth_def logged_def received_def writes_def
           split: if_splits prod.splits option.splits)

lemma custom_token_step_no_token: "\<not> token_available h \<Longrightarrow> custom_token_step h r w = (None, w)"
  by (simp add: custom_token_step_def)

text \<open>
  The read-then-write of lines 47 to 55, taken by itself on any reference: when the read
  succeeds and finds no document, and the write succeeds, it issues one write of the
  profile document and the document exists afterwards; when the read finds a document it
  issues no write. The display label is the one the spec describes.
\<close>

lemma read_then_write_absent:
  assumes "read_then_write r userRef u w = (None, w1)"
    and "lookup_doc (store w) userRef = None"
  shows "lookup_doc (store w1) userRef = Some (resolve (setDoc_time r) (profile_doc u))
         \<and> writes w1 = writes w @ [SetDoc userRef (profile_doc u)]"
  using assms
  by (auto simp: read_then_write_def call_getDoc_def call_setDoc_def received_def writes_def lookup_put_same
           split: if_splits)

lemma read_then_write_present:
  assumes "lookup_doc (store w) userRef = Some d"
  shows "\<exists>e w1. read_then_write r userRef u w = (e, w1) \<and> store w1 = store w \<and> writes w1 = writes w"
  using assms
  by (auto simp: read_then_write_def call_getDoc_def received_def writes_def)

lemma read_then_write_completes:
  "getDoc_ok r \<Longrightarrow> setDoc_ok r \<Longrightarrow> fst (read_then_write r userRef u w) = None"
  by (auto simp: read_then_write_def call_getDoc_def call_setDoc_def split: option.splits)

lemma profile_doc_fields:
  "resolve t (profile_doc u) ''displayName'' = Some (JStr (displayName_of u))"
  "resolve t (profile_doc u) ''uid'' = Some (JStr (uid u))"
  by (simp_all add: resolve_def profile_doc_def)

lemma displayName_of_cases:
  "(\<forall>e. email u = Some e \<and> e \<noteq> [] \<longrightarrow> displayName_of u = takeWhile (\<lambda>c. c \<noteq> CHR ''@'') e) \<and>
   (email u = None \<or> email u = Some [] \<longrightarrow> displayName_of u = ''User-'' @ take 6 (uid u))"
  by (auto simp: displayName_of_def truthy_str_def nullable_def split_at_first_def substring06_def)

text \<open>
  The reference of line 46. The profile path has five segments, so \<^verbatim>\<open>doc\<close> refuses it, for
  every application id and every identity; the room document's path of line 384 has six
  and is accepted.
\<close>

lemma profile_path_length: "length (profile_path h u) = 5"
  by (simp add: profile_path_def)

lemma doc_ref_profile_path: "doc_ref (profile_path h u) = Inl (CollaboratorError ''doc'')"
  by (simp add: doc_ref_def profile_path_def)

lemma doc_ref_chat_doc_path: "doc_ref (chat_doc_path h cid) = Inr (chat_doc_path h cid)"
  by (simp add: doc_ref_def chat_doc_path_def chats_path_def)

lemma ensure_profile_refused: "ensure_profile h r u w = (Some (CollaboratorError ''doc''), w)"
  by (simp add: ensure_profile_def doc_ref_profile_path)

text \<open>
  So on an identity-presence event the listener never runs to its end: it leaves by an
  exception, with \<^verbatim>\<open>loading\<close> as it was, the store as it was and no write issued.
\<close>

lemma identity_present_never_completes:
  "\<exists>err w1. onAuthStateChanged_callback h r (Some u) (p, w) =
              (Some err, p\<lparr>currentUser := Some u, userId := Some (uid u)\<rparr>, w1) \<and>
            store w1 = store w \<and> writes w1 = writes w"
proof (cases "custom_token_step h r w")
  case (Pair e w1)
  from custom_token_step_store[OF Pair] have same: "store w1 = store w \<and> writes w1 = writes w" .
  show ?thesis
  proof (cases e)
    case None
    with Pair same show ?thesis
      by (simp add: onAuthStateChanged_callback_def ensure_profile_refused)
  next
    case (Some err)
    with Pair same show ?thesis
      by (simp add: onAuthStateChanged_callback_def)
  qed
qed

text \<open>
  C1. The claim asks that after the first identity-presence event a profile record exists
  for the identity. The listener attempts this under the comment ``Ensure user document
  exists'' (lines 45 to 55), but the path it hands to \<^verbatim>\<open>doc\<close> on line 46 has five segments,
  which is a collection path: \<^verbatim>\<open>doc\<close> throws, the listener leaves before the read, no write is
  issued and no profile record exists afterwards. On a page with no token, with every
  collaborator call answering successfully, for an identity with an email:
\<close>

theorem profile_reference_refused:
  "onAuthStateChanged_callback example_host all_ok (Some alice) (initial_auth_provider, empty_world) =
     (Some (CollaboratorError ''doc''),
      \<lparr>currentUser = Some alice, userId = Some (uid alice), loading = True\<rparr>,
      \<lparr>store = [], requests = [], console = []\<rparr>) \<and>
   lookup_doc
     (store (snd (snd (onAuthStateChanged_callback example_host all_ok (Some alice)
                         (initial_auth_provider, empty_world)))))
     (profile_path example_host (uid alice)) = None"
proof -
  have no_token: "\<not> token_available example_host"
    by (simp add: token_available_def truthy_str_def nullable_def example_host_def)
  have run: "onAuthStateChanged_callback example_host all_ok (Some alice) (initial_auth_provider, empty_world) =
     (Some (CollaboratorError ''doc''),
      \<lparr>currentUser = Some alice, userId = Some (uid alice), loading = True\<rparr>,
      \<lparr>store = [], requests = [], console = []\<rparr>)"
    by (simp add: onAuthStateChanged_callback_def custom_token_step_no_token[OF no_token]
                  ensure_profile_refused initial_auth_provider_def empty_world_def)
  show ?thesis
    by (simp add: run lookup_doc_def)
qed

lemma anonymous_step_bound:
  assumes "resolves h ''signInAnonymously''" and "\<not> token_available h"
  shows "requests (anonymous_step h r w) = requests w @ [SignInAnonymously]"
  using assms by (simp add: anonymous_step_def call_auth_def received_def logged_def)

lemma anonymous_step_unbound:
  assumes "\<not> resolves h ''signInAnonymously''" and "\<not> token_available h"
  shows "requests (anonymous_step h r w) = requests w \<and>
         console (anonymous_step h r w) =
           console w @ [ConsoleError ''Error signing in anonymously:'' (ReferenceError ''signInAnonymously'')]"
  using assms by (simp add: anonymous_step_def call_auth_def logged_def)

lemma anonymous_failure_logged:
  assumes "\<not> token_available h" and "\<not> signInAnonymously_ok r"
  shows "\<exists>err. console (anonymous_step h r w) = console w @ [ConsoleError ''Error signing in anonymously:'' err]"
  using assms by (simp add: anonymous_step_def call_auth_def logged_def received_def)

lemma identity_absent_state:
  "onAuthStateChanged_callback h r None (p, w) =
     (None, p\<lparr>currentUser := None, userId := None, loading := False\<rparr>, anonymous_step h r w)"
  by (simp add: onAuthStateChanged_callback_def)

lemma token_fallback_bound:
  assumes "resolves h ''signInWithCustomToken''" and "resolves h ''signInAnonymously''"
    and "token_available h" and "\<not> signInWithCustomToken_ok r"
  shows "\<exists>tok. requests (snd (custom_token_step h r w)) =
           requests w @ [SignInWithCustomToken tok, SignInAnonymously]"
  using assms
  by (simp add: custom_token_step_def call_auth_def received_def logged_def)

lemma not_imported:
  "\<not> resolves example_host ''signInAnonymously''"
  "\<not> resolves example_host ''signInWithCustomToken''"
  "\<not> resolves token_host ''signInAnonymously''"
  "\<not> resolves token_host ''signInWithCustomToken''"
  by (simp_all add: resolves_def module_bindings_def example_host_def token_host_def)

text \<open>
  C8. The listener calls \<^verbatim>\<open>signInAnonymously\<close> (lines 41 and 62) and
  \<^verbatim>\<open>signInWithCustomToken\<close> (line 37), which the module neither imports nor declares. On a
  page that defines no such globals: with no identity and no token the call of line 62
  throws a \<^verbatim>\<open>ReferenceError\<close>, which the \<^verbatim>\<open>catch\<close> of line 64 logs, and the authentication
  service receives no request; with a token configured the call of line 37 throws, and the
  fallback of line 41 throws out of the \<^verbatim>\<open>catch\<close> block, so the listener ends with that error,
  again without a request, before the profile is read and with \<^verbatim>\<open>loading\<close> still true.
\<close>

theorem anonymous_sign_in_unbound:
  "onAuthStateChanged_callback example_host all_ok None (initial_auth_provider, empty_world) =
     (None,
      \<lparr>currentUser = None, userId = None, loading = False\<rparr>,
      \<lparr>store = [], requests = [],
       console = [ConsoleError ''Error signing in anonymously:'' (ReferenceError ''signInAnonymously'')]\<rparr>) \<and>
   onAuthStateChanged_callback token_host all_ok (Some alice) (initial_auth_provider, empty_world) =
     (Some (ReferenceError ''signInAnonymously''),
      \<lparr>currentUser = Some alice, userId = Some (uid alice), loading = True\<rparr>,
      \<lparr>store = [], requests = [],
       console = [ConsoleError ''Error signing in with custom token:''
                    (ReferenceError ''signInWithCustomToken'')]\<rparr>)"
proof
  have no_token: "\<not> token_available example_host"
    by (simp add: token_available_def truthy_str_def nullable_def example_host_def)
  show "onAuthStateChanged_callback example_host all_ok None (initial_auth_provider, empty_world) =
     (None,
      \<lparr>currentUser = None, userId = None, loading = False\<rparr>,
      \<lparr>store = [], requests = [],
       console = [ConsoleError ''Error signing in anonymously:'' (ReferenceError ''signInAnonymously'')]\<rparr>)"
    by (simp add: onAuthStateChanged_callback_def anonymous_step_def no_token call_auth_def
                  not_imported logged_def initial_auth_provider_def empty_world_def)
  have token: "token_available token_host"
    by (simp add: token_available_def truthy_str_def nullable_def token_host_def)
  show "onAuthStateChanged_callback token_host all_ok (Some alice) (initial_auth_provider, empty_world) =
     (Some (ReferenceError ''signInAnonymously''),
      \<lparr>currentUser = Some alice, userId = Some (uid alice), loading = True\<rparr>,
      \<lparr>store = [], requests = [],
       console = [ConsoleError ''Error signing in with custom token:''
                    (ReferenceError ''signInWithCustomToken'')]\<rparr>)"
    by (simp add: onAuthStateChanged_callback_def custom_token_step_def token call_auth_def
                  not_imported logged_def initial_auth_provider_def empty_world_def)
qed

section \<open>Room Transcript: sending a message\<close>

lemma trim_Nil: "trim [] = []"
  by (simp add: trim_def)

lemma message_path_not_chat_path: "messages_path h cid @ [i] \<noteq> chat_doc_path h cid'"
  by (simp add: messages_path_def chat_doc_path_def chats_path_def)

lemma call_addDoc_result:
  "call_addDoc r coll d w =
     (if addDoc_ok r
      then (None, \<lparr>store = put (coll @ [addDoc_id r]) (resolve (addDoc_time r) d) (store w),
                   requests = requests w @ [AddDoc coll d], console = console w\<rparr>)
      else (Some (CollaboratorError ''addDoc''),
            \<lparr>store = store w, requests = requests w @ [AddDoc coll d], console = console w\<rparr>))"
  by (simp add: call_addDoc_def received_def)

lemma call_updateDoc_result:
  "call_updateDoc r p d w =
     (case lookup_doc (store w) p of
        Some old \<Rightarrow>
          if updateDoc_ok r
          then (None, \<lparr>store = put p (old ++ resolve (updateDoc_time r) d) (store w),
                       requests = requests w @ [UpdateDoc p d], console = console w\<rparr>)
          else (Some (CollaboratorError ''updateDoc''),
                \<lparr>store = store w, requests = requests w @ [UpdateDoc p d], console = console w\<rparr>)
      | None \<Rightarrow> (Some (CollaboratorError ''updateDoc''),
                \<lparr>store = store w, requests = requests w @ [UpdateDoc p d], console = console w\<rparr>))"
  by (simp add: call_updateDoc_def received_def split: option.splits)

lemma accepted_ids:
  assumes "\<not> send_rejected ctx chatId text"
  shows "\<exists>cid u. chatId = Some cid \<and> ctx_userId ctx = Some u \<and> trim text \<noteq> [] \<and> ctx_db ctx"
  using assms
  by (cases chatId; cases "ctx_userId ctx") (auto simp: send_rejected_def truthy_str_def nullable_def)

text \<open>
  C5. A send-message action whose trimmed text is empty, or that runs without the database
  handle, without a room id or without an identity id, returns the screen state and the
  world as they were: no request is issued, so no message document is created and the room
  document is not updated.
\<close>

theorem send_without_text_or_context_is_noop:
  assumes "trim (newMessage c) = [] \<or> \<not> ctx_db ctx \<or> chatId = None \<or> chatId = Some [] \<or>
           ctx_userId ctx = None \<or> ctx_userId ctx = Some []"
  shows "handleSendMessage h r ctx chatId (c, w) = (c, w)"
proof -
  from assms have "send_rejected ctx chatId (newMessage c)"
    by (auto simp: send_rejected_def truthy_str_def nullable_def)
  then show ?thesis
    by (simp add: handleSendMessage_def)
qed

theorem send_without_text_or_context_is_noop_witness:
  "handleSendMessage example_host all_ok alice_context (Some ''r1'')
     (\<lparr>messages = [], newMessage = ''   ''\<rparr>, general_world) =
   (\<lparr>messages = [], newMessage = ''   ''\<rparr>, general_world)"
proof -
  have "trim (newMessage \<lparr>messages = [], newMessage = ''   ''\<rparr>) = []"
    by (simp add: trim_def is_space_def)
  then show ?thesis
    by (intro send_without_text_or_context_is_noop) simp
qed

text \<open>
  C9. For a send-message action that passes the validation, the draft is cleared exactly
  when the insert of the message and the update of the room document both complete without
  an error. When either write fails, the whole screen state, the draft included, is what
  it was, and the error is written to the console.
\<close>

theorem draft_cleared_iff_both_writes_complete:
  assumes "\<not> send_rejected ctx chatId (newMessage c)"
  shows "(newMessage (fst (handleSendMessage h r ctx chatId (c, w))) = []) =
           (fst (call_addDoc r (messages_path h (the chatId))
                   (message_doc (ctx_currentUser ctx) (the (ctx_userId ctx)) (newMessage c)) w) = None \<and>
            fst (call_updateDoc r (chat_doc_path h (the chatId)) (summary_fields (newMessage c))
                   (snd (call_addDoc r (messages_path h (the chatId))
                           (message_doc (ctx_currentUser ctx) (the (ctx_userId ctx)) (newMessage c)) w))) = None) \<and>
         (newMessage (fst (handleSendMessage h r ctx chatId (c, w))) \<noteq> [] \<longrightarrow>
            fst (handleSendMessage h r ctx chatId (c, w)) = c \<and>
            (\<exists>err. console (snd (handleSendMessage h r ctx chatId (c, w))) =
                     console w @ [ConsoleError ''Error sending message:'' err]))"
proof -
  from assms have "trim (newMessage c) \<noteq> []"
    by (simp add: send_rejected_def)
  then have draft: "newMessage c \<noteq> []"
    using trim_Nil by auto
  show ?thesis
    using assms draft
    by (auto simp: handleSendMessage_def call_addDoc_result call_updateDoc_result logged_def
             split: option.splits)
qed

lemma hello_accepted: "\<not> send_rejected alice_context (Some ''r1'') (newMessage hello_screen)"
  by (simp add: send_rejected_def alice_context_def hello_screen_def truthy_str_def nullable_def
                trim_def is_space_def)

lemma general_room_path: "chat_doc_path example_host ''r1'' =
    [''artifacts'', ''default-app-id'', ''public'', ''data'', ''chats'', ''r1'']"
  by (simp add: chat_doc_path_def chats_path_def appId_def example_host_def)

lemma general_room_stored:
  "lookup_doc (put (messages_path example_host ''r1'' @ [i]) d (store general_world))
     (chat_doc_path example_host ''r1'') \<noteq> None"
  by (simp add: lookup_put_other message_path_not_chat_path[symmetric])
     (simp add: general_room_path general_world_def lookup_doc_def)

theorem draft_cleared_iff_both_writes_complete_witness:
  "newMessage (fst (handleSendMessage example_host all_ok alice_context (Some ''r1'')
                      (hello_screen, general_world))) = [] \<and>
   newMessage (fst (handleSendMessage example_host update_fails alice_context (Some ''r1'')
                      (hello_screen, general_world))) = '' hello ''"
proof
  have "fst (call_addDoc all_ok (messages_path example_host (the (Some ''r1'')))
               (message_doc (ctx_currentUser alice_context) (the (ctx_userId alice_context))
                  (newMessage hello_screen)) general_world) = None \<and>
        fst (call_updateDoc all_ok (chat_doc_path example_host (the (Some ''r1'')))
               (summary_fields (newMessage hello_screen))
               (snd (call_addDoc all_ok (messages_path example_host (the (Some ''r1'')))
                       (message_doc (ctx_currentUser alice_context) (the (ctx_userId alice_context))
                          (newMessage hello_screen)) general_world))) = None"
    using general_room_stored
    by (auto simp: call_addDoc_result call_updateDoc_result all_ok_def split: option.splits)
  with draft_cleared_iff_both_writes_complete[OF hello_accepted, of example_host all_ok general_world]
  show "newMessage (fst (handleSendMessage example_host all_ok alice_context (Some ''r1'')
                      (hello_screen, general_world))) = []"
    by blast
next
  have "fst (call_updateDoc update_fails (chat_doc_path example_host (the (Some ''r1'')))
               (summary_fields (newMessage hello_screen))
               (snd (call_addDoc update_fails (messages_path example_host (the (Some ''r1'')))
                       (message_doc (ctx_currentUser alice_context) (the (ctx_userId alice_context))
                          (newMessage hello_screen)) general_world))) \<noteq> None"
    by (auto simp: call_updateDoc_result update_fails_def split: option.splits)
  with draft_cleared_iff_both_writes_complete[OF hello_accepted, of example_host update_fails general_world]
  have "fst (handleSendMessage example_host update_fails alice_context (Some ''r1'')
               (hello_screen, general_world)) = hello_screen"
    by blast
  then show "newMessage (fst (handleSendMessage example_host update_fails alice_context (Some ''r1'')
                      (hello_screen, general_world))) = '' hello ''"
    by (simp add: hello_screen_def)
qed

lemma message_doc_createdAt:
  "resolve t (message_doc cu u text) ''createdAt'' = Some (JTime t)"
  by (simp add: resolve_def message_doc_def)

lemma summary_fields_dom: "dom (summary_fields text) = {''lastMessage'', ''lastMessageTime''}"
  by (auto simp: summary_fields_def split: if_splits)

lemma resolve_dom: "dom (resolve t d) = dom d"
  by (auto simp: resolve_def dom_def split: option.splits jsval.splits)

lemma summary_merge_frame:
  assumes "f \<noteq> ''lastMessage''" and "f \<noteq> ''lastMessageTime''"
  shows "(old ++ resolve t (summary_fields text)) f = old f"
proof -
  from assms have "f \<notin> dom (resolve t (summary_fields text))"
    by (simp add: resolve_dom summary_fields_dom)
  then show ?thesis
    by (simp add: map_add_dom_app_simps)
qed

lemma summary_merge_values:
  "(old ++ resolve t (summary_fields text)) ''lastMessage'' = Some (JStr (trim text))"
  "(old ++ resolve t (summary_fields text)) ''lastMessageTime'' = Some (JTime t)"
  by (simp_all add: map_add_def resolve_def summary_fields_def)

text \<open>
  The world after an accepted send-message action, case by case: the insert is rejected;
  the insert is committed and the update is rejected (by the server, or because the room
  document does not exist); both are committed.
\<close>

lemma handleSendMessage_accepted:
  assumes "\<not> send_rejected ctx (Some cid) (newMessage c)" and "ctx_userId ctx = Some u"
  shows "snd (handleSendMessage h r ctx (Some cid) (c, w)) =
     (let m = message_doc (ctx_currentUser ctx) u (newMessage c);
          s = summary_fields (newMessage c);
          added = put (messages_path h cid @ [addDoc_id r]) (resolve (addDoc_time r) m) (store w)
      in if \<not> addDoc_ok r
         then \<lparr>store = store w,
               requests = requests w @ [AddDoc (messages_path h cid) m],
               console = console w @ [ConsoleError ''Error sending message:'' (CollaboratorError ''addDoc'')]\<rparr>
         else (case lookup_doc (store w) (chat_doc_path h cid) of
                 Some old \<Rightarrow>
                   if updateDoc_ok r
                   then \<lparr>store = put (chat_doc_path h cid) (old ++ resolve (updateDoc_time r) s) added,
                         requests = requests w @ [AddDoc (messages_path h cid) m, UpdateDoc (chat_doc_path h cid) s],
                         console = console w\<rparr>
                   else \<lparr>store = added,
                         requests = requests w @ [AddDoc (messages_path h cid) m, UpdateDoc (chat_doc_path h cid) s],
                         console = console w @ [ConsoleError ''Error sending message:'' (CollaboratorError ''updateDoc'')]\<rparr>
               | None \<Rightarrow>
                   \<lparr>store = added,
                    requests = requests w @ [AddDoc (messages_path h cid) m, UpdateDoc (chat_doc_path h cid) s],
                    console = console w @ [ConsoleError ''Error sending message:'' (CollaboratorError ''updateDoc'')]\<rparr>))"
  using assms
  by (auto simp: handleSendMessage_def call_addDoc_result call_updateDoc_result logged_def Let_def
                 lookup_put_other message_path_not_chat_path[symmetric]
           split: option.splits)

text \<open>
  C4 (as amended). A send-message action that passes the validation issues its writes in
  this order: first the insert of a message document into the room's message collection,
  with the trimmed text, the sender's id, the sender's label and the \<^verbatim>\<open>serverTimestamp()\<close>
  sentinel as creation time; then, only when the insert has succeeded, the update of the
  room document with the two fields \<^verbatim>\<open>lastMessage\<close> and \<^verbatim>\<open>lastMessageTime\<close> and no other.
  When both are committed the room document has the new summary and every other field of
  it is what it was. The writes are separate: when the insert is committed and the update
  is rejected, the message is stored and the room document is what it was. No other
  document changes.
\<close>

theorem send_message_two_writes:
  assumes "\<not> send_rejected ctx (Some cid) (newMessage c)" and "ctx_userId ctx = Some u"
  shows
    "writes (snd (handleSendMessage h r ctx (Some cid) (c, w))) =
       writes w @ AddDoc (messages_path h cid) (message_doc (ctx_currentUser ctx) u (newMessage c)) #
                  (if addDoc_ok r then [UpdateDoc (chat_doc_path h cid) (summary_fields (newMessage c))] else []) \<and>
     message_doc (ctx_currentUser ctx) u (newMessage c) ''text'' = Some (JStr (trim (newMessage c))) \<and>
     message_doc (ctx_currentUser ctx) u (newMessage c) ''senderId'' = Some (JStr u) \<and>
     message_doc (ctx_currentUser ctx) u (newMessage c) ''senderEmail'' =
       Some (JStr (sender_label (ctx_currentUser ctx) u)) \<and>
     message_doc (ctx_currentUser ctx) u (newMessage c) ''createdAt'' = Some JServerTimestamp \<and>
     dom (summary_fields (newMessage c)) = {''lastMessage'', ''lastMessageTime''} \<and>
     (addDoc_ok r \<longrightarrow>
        lookup_doc (store (snd (handleSendMessage h r ctx (Some cid) (c, w))))
          (messages_path h cid @ [addDoc_id r]) =
        Some (resolve (addDoc_time r) (message_doc (ctx_currentUser ctx) u (newMessage c)))) \<and>
     (\<forall>old. addDoc_ok r \<and> updateDoc_ok r \<and> lookup_doc (store w) (chat_doc_path h cid) = Some old \<longrightarrow>
        (\<exists>new. lookup_doc (store (snd (handleSendMessage h r ctx (Some cid) (c, w)))) (chat_doc_path h cid) =
                 Some new \<and>
               new ''lastMessage'' = Some (JStr (trim (newMessage c))) \<and>
               new ''lastMessageTime'' = Some (JTime (updateDoc_time r)) \<and>
               (\<forall>f. f \<noteq> ''lastMessage'' \<and> f \<noteq> ''lastMessageTime'' \<longrightarrow> new f = old f))) \<and>
     (addDoc_ok r \<and> \<not> updateDoc_ok r \<longrightarrow>
        lookup_doc (store (snd (handleSendMessage h r ctx (Some cid) (c, w)))) (chat_doc_path h cid) =
        lookup_doc (store w) (chat_doc_path h cid)) \<and>
     (\<forall>q. q \<noteq> chat_doc_path h cid \<and> q \<noteq> messages_path h cid @ [addDoc_id r] \<longrightarrow>
        lookup_doc (store (snd (handleSendMessage h r ctx (Some cid) (c, w)))) q = lookup_doc (store w) q)"
proof -
  let ?w' = "snd (handleSendMessage h r ctx (Some cid) (c, w))"
  let ?m = "message_doc (ctx_currentUser ctx) u (newMessage c)"
  let ?s = "summary_fields (newMessage c)"
  let ?mp = "messages_path h cid @ [addDoc_id r]"
  let ?cp = "chat_doc_path h cid"
  note after = handleSendMessage_accepted[OF assms, of h r w]
  have differ: "?cp \<noteq> ?mp"
    using message_path_not_chat_path[of h cid "addDoc_id r" cid] by simp
  have order: "writes ?w' = writes w @ AddDoc (messages_path h cid) ?m #
                 (if addDoc_ok r then [UpdateDoc ?cp ?s] else [])"
    by (simp add: after writes_def Let_def split: option.splits)
  have fields: "?m ''text'' = Some (JStr (trim (newMessage c)))" "?m ''senderId'' = Some (JStr u)"
    "?m ''senderEmail'' = Some (JStr (sender_label (ctx_currentUser ctx) u))"
    "?m ''createdAt'' = Some JServerTimestamp"
    by (simp_all add: message_doc_def)
  have persisted: "addDoc_ok r \<longrightarrow> lookup_doc (store ?w') ?mp = Some (resolve (addDoc_time r) ?m)"
    using differ
    by (simp add: after Let_def lookup_put_same lookup_put_other split: option.splits)
  have summary: "\<forall>old. addDoc_ok r \<and> updateDoc_ok r \<and> lookup_doc (store w) ?cp = Some old \<longrightarrow>
        (\<exists>new. lookup_doc (store ?w') ?cp = Some new \<and>
               new ''lastMessage'' = Some (JStr (trim (newMessage c))) \<and>
               new ''lastMessageTime'' = Some (JTime (updateDoc_time r)) \<and>
               (\<forall>f. f \<noteq> ''lastMessage'' \<and> f \<noteq> ''lastMessageTime'' \<longrightarrow> new f = old f))"
  proof (intro allI impI)
    fix old
    assume ok: "addDoc_ok r \<and> updateDoc_ok r \<and> lookup_doc (store w) ?cp = Some old"
    let ?new = "old ++ resolve (updateDoc_time r) ?s"
    from ok have "lookup_doc (store ?w') ?cp = Some ?new"
      by (simp add: after Let_def lookup_put_same)
    then show "\<exists>new. lookup_doc (store ?w') ?cp = Some new \<and>
               new ''lastMessage'' = Some (JStr (trim (newMessage c))) \<and>
               new ''lastMessageTime'' = Some (JTime (updateDoc_time r)) \<and>
               (\<forall>f. f \<noteq> ''lastMessage'' \<and> f \<noteq> ''lastMessageTime'' \<longrightarrow> new f = old f)"
      by (intro exI[of _ ?new]) (simp add: summary_merge_values summary_merge_frame)
  qed
  have stale: "addDoc_ok r \<and> \<not> updateDoc_ok r \<longrightarrow> lookup_doc (store ?w') ?cp = lookup_doc (store w) ?cp"
    using differ
    by (simp add: after Let_def lookup_put_other split: option.splits)
  have frame: "\<forall>q. q \<noteq> ?cp \<and> q \<noteq> ?mp \<longrightarrow> lookup_doc (store ?w') q = lookup_doc (store w) q"
    by (simp add: after Let_def lookup_put_other split: option.splits)
  from order fields summary_fields_dom[of "newMessage c"] persisted summary stale frame
  show ?thesis
    by (intro conjI)
qed

theorem send_message_two_writes_witness:
  "writes (snd (handleSendMessage example_host all_ok alice_context (Some ''r1'') (hello_screen, general_world))) =
     [AddDoc (messages_path example_host ''r1'') (message_doc (Some alice) ''u1abcdefgh'' '' hello ''),
      UpdateDoc (chat_doc_path example_host ''r1'') (summary_fields '' hello '')] \<and>
   (\<exists>new. lookup_doc (store (snd (handleSendMessage example_host all_ok alice_context (Some ''r1'')
                                    (hello_screen, general_world))))
            (chat_doc_path example_host ''r1'') = Some new \<and>
          new ''lastMessage'' = Some (JStr ''hello'') \<and>
          new ''name'' = Some (JStr ''General''))"
proof -
  have uid: "ctx_userId alice_context = Some ''u1abcdefgh''"
    by (simp add: alice_context_def)
  note sent = send_message_two_writes[OF hello_accepted uid, of example_host all_ok general_world]
  have ok: "addDoc_ok all_ok" "updateDoc_ok all_ok"
    by (simp_all add: all_ok_def)
  let ?old = "[''name'' \<mapsto> JStr ''General'', ''participants'' \<mapsto> JArr [JStr ''u1abcdefgh''],
               ''createdAt'' \<mapsto> JTime 7]"
  have old: "lookup_doc (store general_world) (chat_doc_path example_host ''r1'') = Some ?old"
    by (simp add: general_room_path general_world_def lookup_doc_def)
  have trimmed: "trim (newMessage hello_screen) = ''hello''"
    by (simp add: hello_screen_def trim_def is_space_def)
  from sent[THEN conjunct1] ok have first:
    "writes (snd (handleSendMessage example_host all_ok alice_context (Some ''r1'') (hello_screen, general_world))) =
     [AddDoc (messages_path example_host ''r1'') (message_doc (Some alice) ''u1abcdefgh'' '' hello ''),
      UpdateDoc (chat_doc_path example_host ''r1'') (summary_fields '' hello '')]"
    by (simp add: writes_def general_world_def alice_context_def hello_screen_def)
  from sent ok old have "\<exists>new. lookup_doc (store (snd (handleSendMessage example_host all_ok alice_context
                                    (Some ''r1'') (hello_screen, general_world))))
            (chat_doc_path example_host ''r1'') = Some new \<and>
          new ''lastMessage'' = Some (JStr (trim (newMessage hello_screen))) \<and>
          new ''lastMessageTime'' = Some (JTime (updateDoc_time all_ok)) \<and>
          (\<forall>f. f \<noteq> ''lastMessage'' \<and> f \<noteq> ''lastMessageTime'' \<longrightarrow> new f = ?old f)"
    by blast
  then obtain new where
    "lookup_doc (store (snd (handleSendMessage example_host all_ok alice_context
                                    (Some ''r1'') (hello_screen, general_world))))
            (chat_doc_path example_host ''r1'') = Some new"
    and "new ''lastMessage'' = Some (JStr ''hello'')"
    and "\<forall>f. f \<noteq> ''lastMessage'' \<and> f \<noteq> ''lastMessageTime'' \<longrightarrow> new f = ?old f"
    by (auto simp: trimmed)
  then have "lookup_doc (store (snd (handleSendMessage example_host all_ok alice_context
                                    (Some ''r1'') (hello_screen, general_world))))
            (chat_doc_path example_host ''r1'') = Some new \<and>
          new ''lastMessage'' = Some (JStr ''hello'') \<and> new ''name'' = Some (JStr ''General'')"
    by simp
  with first show ?thesis
    by (intro conjI exI[of _ new]) simp_all
qed

text \<open>
  C4 as stated fails when the server rejects the insert: both writes stand in one \<^verbatim>\<open>try\<close>
  block (lines 374 to 393), so the rejection of the first leads to the \<^verbatim>\<open>catch\<close> and the
  update is never issued. The action has then issued one write, not two.
\<close>

theorem rejected_insert_single_write:
  "writes (snd (handleSendMessage example_host insert_rejected alice_context (Some ''r1'')
                  (hello_screen, general_world))) =
     [AddDoc (messages_path example_host ''r1'') (message_doc (Some alice) ''u1abcdefgh'' '' hello '')]"
proof -
  have uid: "ctx_userId alice_context = Some ''u1abcdefgh''"
    by (simp add: alice_context_def)
  have rejected: "\<not> addDoc_ok insert_rejected"
    by (simp add: insert_rejected_def all_ok_def)
  have "requests (snd (handleSendMessage example_host insert_rejected alice_context (Some ''r1'')
                         (hello_screen, general_world))) =
        requests general_world @
          [AddDoc (messages_path example_host ''r1'')
             (message_doc (ctx_currentUser alice_context) ''u1abcdefgh'' (newMessage hello_screen))]"
    by (simp add: handleSendMessage_accepted[OF hello_accepted uid] rejected Let_def)
  then show ?thesis
    by (simp add: writes_def general_world_def alice_context_def hello_screen_def)
qed

section \<open>Room Directory: creating a room\<close>

lemma chat_doc_fields:
  "chat_doc uo name ''name'' = Some (JStr (trim name))"
  "chat_doc uo name ''participants'' = Some (JArr [nullable uo])"
  "chat_doc uo name ''createdAt'' = Some JServerTimestamp"
  "resolve t (chat_doc uo name) ''name'' = Some (JStr (trim name))"
  "resolve t (chat_doc uo name) ''participants'' = Some (JArr [nullable uo])"
  "resolve t (chat_doc uo name) ''createdAt'' = Some (JTime t)"
  by (simp_all add: chat_doc_def resolve_def)

lemma handleCreateChat_accepted:
  assumes "trim (newChatName c) \<noteq> []" and "ctx_db ctx"
  shows "handleCreateChat h r ctx (c, w) =
     (if addDoc_ok r
      then (c\<lparr>newChatName := [], showCreateChat := False\<rparr>,
            \<lparr>store = put (chats_path h @ [addDoc_id r])
                       (resolve (addDoc_time r) (chat_doc (ctx_userId ctx) (newChatName c))) (store w),
             requests = requests w @ [AddDoc (chats_path h) (chat_doc (ctx_userId ctx) (newChatName c))],
             console = console w\<rparr>)
      else (c,
            \<lparr>store = store w,
             requests = requests w @ [AddDoc (chats_path h) (chat_doc (ctx_userId ctx) (newChatName c))],
             console = console w @ [ConsoleError ''Error creating chat:'' (CollaboratorError ''addDoc'')]\<rparr>))"
  using assms
  by (simp add: handleCreateChat_def call_addDoc_result logged_def)

text \<open>
  C6. A create-room action whose trimmed name is empty returns the screen state and the
  world as they were, so no room document is produced. Otherwise the action issues one
  write, the insert into the room collection of a document whose name is the trimmed
  input, whose participant array holds the current identity id and nothing else, and
  whose creation time is the \<^verbatim>\<open>serverTimestamp()\<close> sentinel; when the server commits the
  insert, the document is stored under the new id with the server's clock as creation
  time, and no other document changes.
\<close>

theorem create_room_inserts_one_record:
  "(trim (newChatName c) = [] \<longrightarrow> handleCreateChat h r ctx (c, w) = (c, w)) \<and>
   (trim (newChatName c) \<noteq> [] \<and> ctx_db ctx \<longrightarrow>
      writes (snd (handleCreateChat h r ctx (c, w))) =
        writes w @ [AddDoc (chats_path h) (chat_doc (ctx_userId ctx) (newChatName c))] \<and>
      chat_doc (ctx_userId ctx) (newChatName c) ''name'' = Some (JStr (trim (newChatName c))) \<and>
      chat_doc (ctx_userId ctx) (newChatName c) ''createdAt'' = Some JServerTimestamp \<and>
      (\<forall>u. ctx_userId ctx = Some u \<longrightarrow>
         chat_doc (ctx_userId ctx) (newChatName c) ''participants'' = Some (JArr [JStr u]) \<and>
         participant_set (chat_doc (ctx_userId ctx) (newChatName c)) = {JStr u}) \<and>
      (addDoc_ok r \<longrightarrow>
         (\<exists>room. lookup_doc (store (snd (handleCreateChat h r ctx (c, w)))) (chats_path h @ [addDoc_id r]) =
                   Some room \<and>
                 room ''name'' = Some (JStr (trim (newChatName c))) \<and>
                 room ''participants'' = Some (JArr [nullable (ctx_userId ctx)]) \<and>
                 room ''createdAt'' = Some (JTime (addDoc_time r))) \<and>
         (\<forall>q. q \<noteq> chats_path h @ [addDoc_id r] \<longrightarrow>
            lookup_doc (store (snd (handleCreateChat h r ctx (c, w)))) q = lookup_doc (store w) q)) \<and>
      (\<not> addDoc_ok r \<longrightarrow> store (snd (handleCreateChat h r ctx (c, w))) = store w))"
proof -
  have rejected: "trim (newChatName c) = [] \<longrightarrow> handleCreateChat h r ctx (c, w) = (c, w)"
    by (simp add: handleCreateChat_def)
  have accepted: "trim (newChatName c) \<noteq> [] \<and> ctx_db ctx \<longrightarrow>
      writes (snd (handleCreateChat h r ctx (c, w))) =
        writes w @ [AddDoc (chats_path h) (chat_doc (ctx_userId ctx) (newChatName c))] \<and>
      chat_doc (ctx_userId ctx) (newChatName c) ''name'' = Some (JStr (trim (newChatName c))) \<and>
      chat_doc (ctx_userId ctx) (newChatName c) ''createdAt'' = Some JServerTimestamp \<and>
      (\<forall>u. ctx_userId ctx = Some u \<longrightarrow>
         chat_doc (ctx_userId ctx) (newChatName c) ''participants'' = Some (JArr [JStr u]) \<and>
         participant_set (chat_doc (ctx_userId ctx) (newChatName c)) = {JStr u}) \<and>
      (addDoc_ok r \<longrightarrow>
         (\<exists>room. lookup_doc (store (snd (handleCreateChat h r ctx (c, w)))) (chats_path h @ [addDoc_id r]) =
                   Some room \<and>
                 room ''name'' = Some (JStr (trim (newChatName c))) \<and>
                 room ''participants'' = Some (JArr [nullable (ctx_userId ctx)]) \<and>
                 room ''createdAt'' = Some (JTime (addDoc_time r))) \<and>
         (\<forall>q. q \<noteq> chats_path h @ [addDoc_id r] \<longrightarrow>
            lookup_doc (store (snd (handleCreateChat h r ctx (c, w)))) q = lookup_doc (store w) q)) \<and>
      (\<not> addDoc_ok r \<longrightarrow> store (snd (handleCreateChat h r ctx (c, w))) = store w)"
  proof
    assume "trim (newChatName c) \<noteq> [] \<and> ctx_db ctx"
    then have after: "handleCreateChat h r ctx (c, w) =
       (if addDoc_ok r
        then (c\<lparr>newChatName := [], showCreateChat := False\<rparr>,
              \<lparr>store = put (chats_path h @ [addDoc_id r])
                         (resolve (addDoc_time r) (chat_doc (ctx_userId ctx) (newChatName c))) (store w),
               requests = requests w @ [AddDoc (chats_path h) (chat_doc (ctx_userId ctx) (newChatName c))],
               console = console w\<rparr>)
        else (c,
              \<lparr>store = store w,
               requests = requests w @ [AddDoc (chats_path h) (chat_doc (ctx_userId ctx) (newChatName c))],
               console = console w @ [ConsoleError ''Error creating chat:'' (CollaboratorError ''addDoc'')]\<rparr>))"
      by (simp add: handleCreateChat_accepted)
    have issued: "writes (snd (handleCreateChat h r ctx (c, w))) =
          writes w @ [AddDoc (chats_path h) (chat_doc (ctx_userId ctx) (newChatName c))]"
      by (simp add: after writes_def)
    have sole: "\<forall>u. ctx_userId ctx = Some u \<longrightarrow>
           chat_doc (ctx_userId ctx) (newChatName c) ''participants'' = Some (JArr [JStr u]) \<and>
           participant_set (chat_doc (ctx_userId ctx) (newChatName c)) = {JStr u}"
      by (simp add: chat_doc_fields participant_set_def participants_of_def nullable_def)
    have committed: "addDoc_ok r \<longrightarrow>
           (\<exists>room. lookup_doc (store (snd (handleCreateChat h r ctx (c, w)))) (chats_path h @ [addDoc_id r]) =
                     Some room \<and>
                   room ''name'' = Some (JStr (trim (newChatName c))) \<and>
                   room ''participants'' = Some (JArr [nullable (ctx_userId ctx)]) \<and>
                   room ''createdAt'' = Some (JTime (addDoc_time r))) \<and>
           (\<forall>q. q \<noteq> chats_path h @ [addDoc_id r] \<longrightarrow>
              lookup_doc (store (snd (handleCreateChat h r ctx (c, w)))) q = lookup_doc (store w) q)"
      by (simp add: after lookup_put_same lookup_put_other chat_doc_fields)
    have refused: "\<not> addDoc_ok r \<longrightarrow> store (snd (handleCreateChat h r ctx (c, w))) = store w"
      by (simp add: after)
    from issued chat_doc_fields(1)[of "ctx_userId ctx" "newChatName c"]
      chat_doc_fields(3)[of "ctx_userId ctx" "newChatName c"] sole committed refused
    show "writes (snd (handleCreateChat h r ctx (c, w))) =
        writes w @ [AddDoc (chats_path h) (chat_doc (ctx_userId ctx) (newChatName c))] \<and>
      chat_doc (ctx_userId ctx) (newChatName c) ''name'' = Some (JStr (trim (newChatName c))) \<and>
      chat_doc (ctx_userId ctx) (newChatName c) ''createdAt'' = Some JServerTimestamp \<and>
      (\<forall>u. ctx_userId ctx = Some u \<longrightarrow>
         chat_doc (ctx_userId ctx) (newChatName c) ''participants'' = Some (JArr [JStr u]) \<and>
         participant_set (chat_doc (ctx_userId ctx) (newChatName c)) = {JStr u}) \<and>
      (addDoc_ok r \<longrightarrow>
         (\<exists>room. lookup_doc (store (snd (handleCreateChat h r ctx (c, w)))) (chats_path h @ [addDoc_id r]) =
                   Some room \<and>
                 room ''name'' = Some (JStr (trim (newChatName c))) \<and>
                 room ''participants'' = Some (JArr [nullable (ctx_userId ctx)]) \<and>
                 room ''createdAt'' = Some (JTime (addDoc_time r))) \<and>
         (\<forall>q. q \<noteq> chats_path h @ [addDoc_id r] \<longrightarrow>
            lookup_doc (store (snd (handleCreateChat h r ctx (c, w)))) q = lookup_doc (store w) q)) \<and>
      (\<not> addDoc_ok r \<longrightarrow> store (snd (handleCreateChat h r ctx (c, w))) = store w)"
      by (intro conjI)
  qed
  from rejected accepted show ?thesis
    by (intro conjI)
qed

theorem create_room_inserts_one_record_witness:
  "handleCreateChat example_host all_ok alice_context
     (\<lparr>chats = [], newChatName = ''  '', showCreateChat = True\<rparr>, empty_world) =
     (\<lparr>chats = [], newChatName = ''  '', showCreateChat = True\<rparr>, empty_world) \<and>
   (\<exists>room. lookup_doc (store (snd (handleCreateChat example_host all_ok alice_context
                                     (new_room_screen, empty_world))))
             (chats_path example_host @ [''d1'']) = Some room \<and>
           room ''name'' = Some (JStr ''General'') \<and>
           room ''participants'' = Some (JArr [JStr ''u1abcdefgh'']) \<and>
           room ''createdAt'' = Some (JTime 100))"
proof
  have "trim (newChatName \<lparr>chats = [], newChatName = ''  '', showCreateChat = True\<rparr>) = []"
    by (simp add: trim_def is_space_def)
  with create_room_inserts_one_record
         [of "\<lparr>chats = [], newChatName = ''  '', showCreateChat = True\<rparr>" example_host all_ok alice_context
             empty_world]
  show "handleCreateChat example_host all_ok alice_context
     (\<lparr>chats = [], newChatName = ''  '', showCreateChat = True\<rparr>, empty_world) =
     (\<lparr>chats = [], newChatName = ''  '', showCreateChat = True\<rparr>, empty_world)"
    by blast
next
  have name: "trim (newChatName new_room_screen) = ''General''"
    by (simp add: new_room_screen_def trim_def is_space_def)
  then have pre: "trim (newChatName new_room_screen) \<noteq> [] \<and> ctx_db alice_context"
    by (simp add: alice_context_def)
  have ok: "addDoc_ok all_ok"
    by (simp add: all_ok_def)
  from create_room_inserts_one_record[of new_room_screen example_host all_ok alice_context empty_world]
    pre ok
  have "\<exists>room. lookup_doc (store (snd (handleCreateChat example_host all_ok alice_context
                                     (new_room_screen, empty_world))))
             (chats_path example_host @ [addDoc_id all_ok]) = Some room \<and>
           room ''name'' = Some (JStr (trim (newChatName new_room_screen))) \<and>
           room ''participants'' = Some (JArr [nullable (ctx_userId alice_context)]) \<and>
           room ''createdAt'' = Some (JTime (addDoc_time all_ok))"
    by blast
  then show "\<exists>room. lookup_doc (store (snd (handleCreateChat example_host all_ok alice_context
                                     (new_room_screen, empty_world))))
             (chats_path example_host @ [''d1'']) = Some room \<and>
           room ''name'' = Some (JStr ''General'') \<and>
           room ''participants'' = Some (JArr [JStr ''u1abcdefgh'']) \<and>
           room ''createdAt'' = Some (JTime 100)"
    by (simp add: name all_ok_def alice_context_def nullable_def)
qed

section \<open>Room Transcript: the order of the messages\<close>

lemma send_persists:
  assumes "\<not> send_rejected ctx (Some cid) (newMessage c)" and "ctx_userId ctx = Some u" and "addDoc_ok r"
  shows "lookup_doc (store (snd (handleSendMessage h r ctx (Some cid) (c, w)))) (messages_path h cid @ [addDoc_id r]) =
         Some (resolve (addDoc_time r) (message_doc (ctx_currentUser ctx) u (newMessage c)))"
proof -
  have "chat_doc_path h cid \<noteq> messages_path h cid @ [addDoc_id r]"
    using message_path_not_chat_path[of h cid "addDoc_id r" cid] by simp
  with assms(3) show ?thesis
    by (simp add: handleSendMessage_accepted[OF assms(1,2)] Let_def lookup_put_same lookup_put_other
             split: option.splits)
qed

lemma send_frame:
  assumes "\<not> send_rejected ctx (Some cid) (newMessage c)" and "ctx_userId ctx = Some u"
    and "q \<noteq> chat_doc_path h cid" and "q \<noteq> messages_path h cid @ [addDoc_id r]"
  shows "lookup_doc (store (snd (handleSendMessage h r ctx (Some cid) (c, w)))) q = lookup_doc (store w) q"
  using assms(3,4)
  by (simp add: handleSendMessage_accepted[OF assms(1,2)] Let_def lookup_put_other split: option.splits)

lemma collection_docs_member:
  assumes "lookup_doc fs (coll @ [i]) = Some d"
  shows "(i, d) \<in> set (collection_docs fs coll)"
proof -
  from assms have "(coll @ [i], d) \<in> set fs"
    by (simp add: lookup_doc_def map_of_SomeD)
  then have "(coll @ [i], d) \<in> set (filter (\<lambda>e. fst e \<noteq> [] \<and> butlast (fst e) = coll) fs)"
    by simp
  then have "(\<lambda>e. (last (fst e), snd e)) (coll @ [i], d) \<in> set (collection_docs fs coll)"
    unfolding collection_docs_def set_map by (rule imageI)
  then show ?thesis
    by simp
qed

lemma with_id_createdAt: "with_id e ''createdAt'' = snd e ''createdAt''"
  by (simp add: with_id_def map_add_def split: option.splits)

lemma created_key_with_id: "created_key (with_id e) = order_key (field (snd e) ''createdAt'')"
  by (simp add: created_key_def field_def with_id_createdAt)

lemma transcript_sorted: "sorted (map created_key (transcript h cid fs))"
proof -
  have "map created_key (transcript h cid fs) =
        map (\<lambda>e. order_key (field (snd e) ''createdAt''))
          (sort_key (\<lambda>e. order_key (field (snd e) ''createdAt''))
             (filter (\<lambda>e. snd e ''createdAt'' \<noteq> None) (collection_docs fs (messages_path h cid))))"
    by (simp add: transcript_def messages_onSnapshot_def messages_query_def created_key_with_id comp_def)
  then show ?thesis
    by (simp only: sorted_sort_key)
qed

lemma transcript_member:
  assumes "lookup_doc fs (messages_path h cid @ [i]) = Some d" and "d ''createdAt'' \<noteq> None"
  shows "with_id (i, d) \<in> set (transcript h cid fs)"
proof -
  from collection_docs_member[OF assms(1)] assms(2)
  have "(i, d) \<in> set (snapshot_of fs (messages_query h cid))"
    by (simp add: messages_query_def)
  then show ?thesis
    by (simp add: transcript_def messages_onSnapshot_def)
qed

lemma sorted_positions:
  assumes "sorted (map k xs)" and "i < length xs" and "j < length xs" and "k (xs ! i) < k (xs ! j)"
  shows "i < j"
proof (rule ccontr)
  assume "\<not> i < j"
  then have "j \<le> i" by simp
  from sorted_nth_mono[OF assms(1) this] assms(2) have "map k xs ! j \<le> map k xs ! i"
    by simp
  with assms(2,3) have "k (xs ! j) \<le> k (xs ! i)"
    by simp
  with assms(4) show False
    by simp
qed

lemma sent_message_key:
  "created_key (with_id (i, resolve t (message_doc cu u text))) = (3, int t)"
  by (simp add: created_key_with_id field_def message_doc_createdAt)

text \<open>
  C3. The transcript's listener stores the documents of the snapshot in the snapshot's
  order and the screen renders them in that order: the client does not sort. The query of
  the subscription asks the server for the room's messages ordered by \<^verbatim>\<open>createdAt\<close>, the
  field in which a sent message carries its server-assigned creation time; so the
  transcript is in ascending order of creation time. In particular, when a message is
  sent and committed and then a second one is sent and committed at a later server time,
  both are in the transcript and the first stands before the second.
\<close>

theorem transcript_in_creation_order:
  assumes "\<not> send_rejected ctx1 (Some cid) (newMessage c1)" and "ctx_userId ctx1 = Some u1"
    and "\<not> send_rejected ctx2 (Some cid) (newMessage c2)" and "ctx_userId ctx2 = Some u2"
    and "addDoc_ok r1" and "addDoc_ok r2"
    and "addDoc_id r1 \<noteq> addDoc_id r2" and "addDoc_time r1 < addDoc_time r2"
    and "w1 = snd (handleSendMessage h r1 ctx1 (Some cid) (c1, w))"
    and "w2 = snd (handleSendMessage h r2 ctx2 (Some cid) (c2, w1))"
    and "m1 = with_id (addDoc_id r1, resolve (addDoc_time r1) (message_doc (ctx_currentUser ctx1) u1 (newMessage c1)))"
    and "m2 = with_id (addDoc_id r2, resolve (addDoc_time r2) (message_doc (ctx_currentUser ctx2) u2 (newMessage c2)))"
  shows "messages_onSnapshot docs = map with_id docs \<and>
         chat_room_effect h ctx1 (Some cid) = Some (Query (messages_path h cid) (Some ''createdAt'')) \<and>
         sorted (map created_key (transcript h cid fs)) \<and>
         m1 \<in> set (transcript h cid (store w2)) \<and>
         m2 \<in> set (transcript h cid (store w2)) \<and>
         (\<forall>i j. i < length (transcript h cid (store w2)) \<and> j < length (transcript h cid (store w2)) \<and>
                transcript h cid (store w2) ! i = m1 \<and> transcript h cid (store w2) ! j = m2 \<longrightarrow> i < j)"
proof -
  let ?d1 = "resolve (addDoc_time r1) (message_doc (ctx_currentUser ctx1) u1 (newMessage c1))"
  let ?d2 = "resolve (addDoc_time r2) (message_doc (ctx_currentUser ctx2) u2 (newMessage c2))"
  let ?T = "transcript h cid (store w2)"
  have listener: "messages_onSnapshot docs = map with_id docs"
    by (simp add: messages_onSnapshot_def)
  from assms(1) have "ctx_db ctx1 \<and> cid \<noteq> []"
    by (auto simp: send_rejected_def truthy_str_def nullable_def)
  then have subscription:
    "chat_room_effect h ctx1 (Some cid) = Some (Query (messages_path h cid) (Some ''createdAt''))"
    by (simp add: chat_room_effect_def messages_query_def truthy_str_def nullable_def)
  have first_in_w1: "lookup_doc (store w1) (messages_path h cid @ [addDoc_id r1]) = Some ?d1"
    unfolding assms(9) by (rule send_persists[OF assms(1,2,5)])
  have "messages_path h cid @ [addDoc_id r1] \<noteq> chat_doc_path h cid"
    by (rule message_path_not_chat_path)
  moreover have "messages_path h cid @ [addDoc_id r1] \<noteq> messages_path h cid @ [addDoc_id r2]"
    using assms(7) by simp
  ultimately have "lookup_doc (store w2) (messages_path h cid @ [addDoc_id r1]) =
                   lookup_doc (store w1) (messages_path h cid @ [addDoc_id r1])"
    unfolding assms(10) by (rule send_frame[OF assms(3,4)])
  with first_in_w1 have first_in_w2: "lookup_doc (store w2) (messages_path h cid @ [addDoc_id r1]) = Some ?d1"
    by simp
  have second_in_w2: "lookup_doc (store w2) (messages_path h cid @ [addDoc_id r2]) = Some ?d2"
    unfolding assms(10) by (rule send_persists[OF assms(3,4,6)])
  have in1: "m1 \<in> set ?T"
    unfolding assms(11) by (rule transcript_member[OF first_in_w2]) (simp add: message_doc_createdAt)
  have in2: "m2 \<in> set ?T"
    unfolding assms(12) by (rule transcript_member[OF second_in_w2]) (simp add: message_doc_createdAt)
  have keys: "created_key m1 < created_key m2"
    using assms(8) by (simp add: assms(11,12) sent_message_key)
  have before: "\<forall>i j. i < length ?T \<and> j < length ?T \<and> ?T ! i = m1 \<and> ?T ! j = m2 \<longrightarrow> i < j"
  proof (intro allI impI)
    fix i j
    assume at: "i < length ?T \<and> j < length ?T \<and> ?T ! i = m1 \<and> ?T ! j = m2"
    with keys have "created_key (?T ! i) < created_key (?T ! j)"
      by simp
    with at show "i < j"
      using sorted_positions[OF transcript_sorted, of i h cid "store w2" j] by simp
  qed
  from listener subscription transcript_sorted[of h cid fs] in1 in2 before show ?thesis
    by (intro conjI)
qed

lemma world_accepted: "\<not> send_rejected alice_context (Some ''r1'') (newMessage world_screen)"
  by (simp add: send_rejected_def alice_context_def world_screen_def truthy_str_def nullable_def
                trim_def is_space_def)

theorem transcript_in_creation_order_witness:
  "with_id (''d1'', resolve 100 (message_doc (Some alice) ''u1abcdefgh'' '' hello ''))
     \<in> set (transcript example_host ''r1''
               (store (snd (handleSendMessage example_host second_send alice_context (Some ''r1'')
                  (world_screen,
                   snd (handleSendMessage example_host all_ok alice_context (Some ''r1'')
                          (hello_screen, general_world))))))) \<and>
   with_id (''d2'', resolve 200 (message_doc (Some alice) ''u1abcdefgh'' ''world''))
     \<in> set (transcript example_host ''r1''
               (store (snd (handleSendMessage example_host second_send alice_context (Some ''r1'')
                  (world_screen,
                   snd (handleSendMessage example_host all_ok alice_context (Some ''r1'')
                          (hello_screen, general_world)))))))"
proof -
  have uid: "ctx_userId alice_context = Some ''u1abcdefgh''"
    by (simp add: alice_context_def)
  have ok: "addDoc_ok all_ok" "addDoc_ok second_send"
    by (simp_all add: all_ok_def second_send_def)
  have ids: "addDoc_id all_ok \<noteq> addDoc_id second_send"
    by (simp add: all_ok_def second_send_def)
  have times: "addDoc_time all_ok < addDoc_time second_send"
    by (simp add: all_ok_def second_send_def)
  from transcript_in_creation_order
         [OF hello_accepted uid world_accepted uid ok ids times refl refl refl refl,
          where h = example_host and w = general_world]
  show ?thesis
    by (simp add: all_ok_def second_send_def alice_context_def hello_screen_def world_screen_def)
qed

lemma transcript_example:
  "map (\<lambda>m. m ''text'')
     (transcript example_host ''r1''
        (store (snd (handleSendMessage example_host second_send alice_context (Some ''r1'')
           (world_screen,
            snd (handleSendMessage example_host all_ok alice_context (Some ''r1'')
                   (hello_screen, general_world))))))) =
   [Some (JStr ''hello''), Some (JStr ''world'')]"
  by (simp add: handleSendMessage_def send_rejected_def alice_context_def hello_screen_def
        world_screen_def general_world_def all_ok_def second_send_def truthy_str_def nullable_def
        trim_def is_space_def call_addDoc_def call_updateDoc_def received_def logged_def
        lookup_doc_def messages_path_def chat_doc_path_def chats_path_def appId_def
        example_host_def transcript_def messages_onSnapshot_def messages_query_def
        collection_docs_def field_def resolve_def message_doc_def summary_fields_def with_id_def
        alice_def sender_label_def)

section \<open>View Router\<close>

lemma rendered_room:
  assumes "rendered cu a = ChatRoomScreen c n"
  shows "cu \<noteq> None \<and> view a = ChatRoom \<and> selectedChatId a = Some c"
  using assms
  by (cases "selectedChatId a") (auto simp: rendered_def truthy_str_def nullable_def split: if_splits)

lemma rendered_list:
  assumes "rendered cu a = ChatListScreen"
  shows "cu \<noteq> None \<and> view a = ChatList"
  using assms by (auto simp: rendered_def split: if_splits)

lemma rendered_without_identity: "rendered None a \<noteq> ChatListScreen \<and> (\<forall>c n. rendered None a \<noteq> ChatRoomScreen c n)"
  by (simp add: rendered_def)

lemma reachable_absent_login:
  assumes "reachable s"
  shows "fst s = None \<longrightarrow> view (snd s) = Login"
  using assms
proof (induction rule: reachable.induct)
  case (reachable_mount cu)
  show ?case
    by (simp add: mount_def currentUser_effect_def)
next
  case (reachable_identity s new fresh)
  then show ?case
    by (cases "fst s"; cases new)
       (auto simp: identity_event_def deps_changed_def currentUser_effect_def)
next
  case (reachable_select cu a c n)
  then show ?case
    using rendered_list by auto
next
  case (reachable_back cu a c n)
  then show ?case
    using rendered_room by auto
qed

text \<open>
  C7. The router starts in the room-list state, and when it is mounted with no identity
  its effect moves it to login. From every state the router can be in, an
  identity-absence event leaves it in the login state. When the event arrives while the
  transcript of a room is shown, the router commits two states, the transcript state and
  then login, so the room list is never the state nor the screen; already in the first of
  them the transcript is unmounted, so the message subscription is released, and a
  snapshot of that room is no longer handed to the listener.
\<close>

theorem identity_absence_drives_to_login:
  "view initial_app = ChatList \<and>
   map (\<lambda>s. view (snd s)) (mount None) = [ChatList, Login] \<and>
   (reachable s \<longrightarrow> view (snd (last (identity_event None fresh s))) = Login) \<and>
   (\<forall>cu a c n docs msgs. rendered cu a = ChatRoomScreen c n \<longrightarrow>
      message_subscription cu a = Some c \<and>
      map (\<lambda>s. view (snd s)) (identity_event None fresh (cu, a)) = [ChatRoom, Login] \<and>
      (\<forall>s' \<in> set (identity_event None fresh (cu, a)).
         rendered (fst s') (snd s') \<noteq> ChatListScreen \<and>
         message_subscription (fst s') (snd s') = None \<and>
         deliver_messages (message_subscription (fst s') (snd s')) c docs msgs = msgs))"
proof -
  have start: "view initial_app = ChatList"
    by (simp add: initial_app_def)
  have corrected: "map (\<lambda>s. view (snd s)) (mount None) = [ChatList, Login]"
    by (simp add: mount_def initial_app_def currentUser_effect_def)
  have always: "reachable s \<longrightarrow> view (snd (last (identity_event None fresh s))) = Login"
  proof
    assume "reachable s"
    from reachable_absent_login[OF this] show "view (snd (last (identity_event None fresh s))) = Login"
      by (cases "fst s") (auto simp: identity_event_def deps_changed_def currentUser_effect_def)
  qed
  have from_room: "\<forall>cu a c n docs msgs. rendered cu a = ChatRoomScreen c n \<longrightarrow>
      message_subscription cu a = Some c \<and>
      map (\<lambda>s. view (snd s)) (identity_event None fresh (cu, a)) = [ChatRoom, Login] \<and>
      (\<forall>s' \<in> set (identity_event None fresh (cu, a)).
         rendered (fst s') (snd s') \<noteq> ChatListScreen \<and>
         message_subscription (fst s') (snd s') = None \<and>
         deliver_messages (message_subscription (fst s') (snd s')) c docs msgs = msgs)"
  proof (intro allI impI)
    fix cu a c n and docs :: "(string \<times> document) list" and msgs :: "document list"
    assume room: "rendered cu a = ChatRoomScreen c n"
    from rendered_room[OF room] obtain u where cu: "cu = Some u" and v: "view a = ChatRoom"
      by auto
    have commits: "identity_event None fresh (cu, a) = [(None, a), (None, a\<lparr>view := Login\<rparr>)]"
      by (simp add: identity_event_def deps_changed_def cu currentUser_effect_def)
    have released: "message_subscription None a = None" "message_subscription None (a\<lparr>view := Login\<rparr>) = None"
      by (simp_all add: message_subscription_def rendered_def v)
    have screens: "rendered None a \<noteq> ChatListScreen" "rendered None (a\<lparr>view := Login\<rparr>) \<noteq> ChatListScreen"
      by (simp_all add: rendered_def)
    have live: "message_subscription cu a = Some c"
      by (simp add: message_subscription_def room)
    show "message_subscription cu a = Some c \<and>
      map (\<lambda>s. view (snd s)) (identity_event None fresh (cu, a)) = [ChatRoom, Login] \<and>
      (\<forall>s' \<in> set (identity_event None fresh (cu, a)).
         rendered (fst s') (snd s') \<noteq> ChatListScreen \<and>
         message_subscription (fst s') (snd s') = None \<and>
         deliver_messages (message_subscription (fst s') (snd s')) c docs msgs = msgs)"
      by (simp add: commits released screens v live deliver_messages_def)
  qed
  from start corrected always from_room show ?thesis
    by (intro conjI)
qed

theorem identity_absence_drives_to_login_witness:
  "view (snd (last (identity_event None True
      (Some alice, handleSelectChat ''r1'' ''General'' (currentUser_effect (Some alice) initial_app))))) = Login \<and>
   map (\<lambda>s. view (snd s)) (identity_event None True
      (Some alice, handleSelectChat ''r1'' ''General'' (currentUser_effect (Some alice) initial_app))) =
     [ChatRoom, Login] \<and>
   message_subscription (Some alice)
      (handleSelectChat ''r1'' ''General'' (currentUser_effect (Some alice) initial_app)) = Some ''r1''"
proof -
  let ?a = "currentUser_effect (Some alice) initial_app"
  let ?room = "handleSelectChat ''r1'' ''General'' ?a"
  have "reachable (last (mount (Some alice)))"
    by (rule reachable_mount)
  then have mounted: "reachable (Some alice, ?a)"
    by (simp add: mount_def)
  have "rendered (Some alice) ?a = ChatListScreen"
    by (simp add: rendered_def currentUser_effect_def initial_app_def)
  with mounted have selected: "reachable (Some alice, ?room)"
    by (rule reachable_select)
  have shown: "rendered (Some alice) ?room = ChatRoomScreen ''r1'' ''General''"
    by (simp add: rendered_def handleSelectChat_def truthy_str_def nullable_def)
  note router = identity_absence_drives_to_login[of "(Some alice, ?room)" True]
  from router selected have "view (snd (last (identity_event None True (Some alice, ?room)))) = Login"
    by blast
  moreover from router shown have
    "message_subscription (Some alice) ?room = Some ''r1'' \<and>
     map (\<lambda>s. view (snd s)) (identity_event None True (Some alice, ?room)) = [ChatRoom, Login]"
    by blast
  ultimately show ?thesis
    by simp
qed

section \<open>The scenario of the spec\<close>

lemmas scenario_defs =
  room_created_def hello_sent_def handleCreateChat_def handleSendMessage_def send_rejected_def
  u1_context_def example_host_def all_ok_def second_send_def empty_world_def
  call_addDoc_def call_updateDoc_def received_def logged_def lookup_doc_def
  chats_path_def chat_doc_path_def messages_path_def appId_def
  chat_doc_def message_doc_def summary_fields_def sender_label_def substring06_def resolve_def
  trim_def is_space_def truthy_str_def nullable_def
  directory_def transcript_def chats_query_def messages_query_def collection_docs_def
  chats_onSnapshot_def messages_onSnapshot_def is_participant_def field_def with_id_def
  map_add_def Let_def

lemma scenario_room_listed:
  "\<exists>room. directory example_host ''u1'' (store room_created) = Inr [room] \<and>
      room ''name'' = Some (JStr ''General'') \<and> room ''lastMessage'' = None"
  by (simp add: scenario_defs)

lemma scenario_message_shown:
  "\<exists>m. transcript example_host ''d1'' (store hello_sent) = [m] \<and>
      m ''text'' = Some (JStr ''hello'') \<and> m ''senderId'' = Some (JStr ''u1'')"
  by (simp add: scenario_defs)

lemma scenario_summary_updated:
  "\<exists>room. directory example_host ''u1'' (store hello_sent) = Inr [room] \<and>
      room ''name'' = Some (JStr ''General'') \<and> room ''lastMessage'' = Some (JStr ''hello'')"
  by (simp add: scenario_defs)

lemma scenario_hidden_from_others:
  "directory example_host ''u2'' (store hello_sent) = Inr []"
  by (simp add: scenario_defs)

end
